theory Spec2Isabelle
  imports Complex_Main
begin

section \<open>The resend-link worker (src/index.ts)\<close>

text \<open>
  A shallow embedding of the request pipeline of \<^verbatim>\<open>src/index.ts\<close>: a signed link is
  checked, resolved to an email id, the email's HTML is fetched from the provider and
  served with a cache lifetime taken from the link's expiry.

  Conventions of the embedding.
  \<^item> A string is a \<open>char list\<close> holding the UTF-8 bytes of the text. The source compares
    \<open>length\<close> with 0 only, which does not depend on the unit counted.
  \<^item> A number is an \<open>int\<close>: the timestamps are whole seconds, \<open>Date.now()\<close> is a whole
    number of milliseconds, and on whole numbers below \<open>2^53\<close> the arithmetic of the
    source is exact.
  \<^item> The libraries the worker calls (URL parsing, \<open>jose\<close>, the Resend client, the clock)
    are not part of the repository: they are the fields of the record \<open>Platform\<close>, and
    every theorem holds for all of them.
  \<^item> An exception is a value: a call that may throw returns a sum or an option.
\<close>

subsection \<open>Values of unknown shape\<close>

text \<open>What \<open>unknown\<close> can hold at run time after JSON decoding.\<close>

datatype jsvalue =
    JUndefined
  | JNull
  | JBoolean bool
  | JNumber int
  | JString string
  | JArray "jsvalue list"
  | JObject "(string \<times> jsvalue) list"

fun typeof :: "jsvalue \<Rightarrow> string" where
  "typeof JUndefined = ''undefined''"
| "typeof JNull = ''object''"
| "typeof (JBoolean b) = ''boolean''"
| "typeof (JNumber n) = ''number''"
| "typeof (JString s) = ''string''"
| "typeof (JArray xs) = ''object''"
| "typeof (JObject fields) = ''object''"

text \<open>
  Reading a named property. A property that an object does not have reads as
  \<open>undefined\<close>, and so do the names read here (\<open>message\<close>, \<open>html\<close>) on an array, a string,
  a number or a boolean. On \<open>undefined\<close> and \<open>null\<close> the read throws in the source; every
  read of the source stands behind a test that excludes both, and so does every use of
  \<open>getProperty\<close> below.
\<close>

fun getProperty :: "jsvalue \<Rightarrow> string \<Rightarrow> jsvalue" where
  "getProperty (JObject fields) name =
     (case map_of fields name of None \<Rightarrow> JUndefined | Some v \<Rightarrow> v)"
| "getProperty v name = JUndefined"

subsection \<open>String.prototype.trim and number formatting\<close>

text \<open>
  \<open>trim\<close> removes the code points of WhiteSpace and LineTerminator from both ends:
  U+0009 to U+000D, U+0020, U+00A0, U+1680, U+2000 to U+200A, U+2028, U+2029, U+202F,
  U+205F, U+3000 and U+FEFF. The table lists their UTF-8 encodings.
\<close>

definition whiteSpace :: "string list" where
  "whiteSpace =
     [[CHR 0x09], [CHR 0x0A], [CHR 0x0B], [CHR 0x0C], [CHR 0x0D], [CHR 0x20],
      [CHR 0xC2, CHR 0xA0],
      [CHR 0xE1, CHR 0x9A, CHR 0x80],
      [CHR 0xE2, CHR 0x80, CHR 0x80], [CHR 0xE2, CHR 0x80, CHR 0x81],
      [CHR 0xE2, CHR 0x80, CHR 0x82], [CHR 0xE2, CHR 0x80, CHR 0x83],
      [CHR 0xE2, CHR 0x80, CHR 0x84], [CHR 0xE2, CHR 0x80, CHR 0x85],
      [CHR 0xE2, CHR 0x80, CHR 0x86], [CHR 0xE2, CHR 0x80, CHR 0x87],
      [CHR 0xE2, CHR 0x80, CHR 0x88], [CHR 0xE2, CHR 0x80, CHR 0x89],
      [CHR 0xE2, CHR 0x80, CHR 0x8A],
      [CHR 0xE2, CHR 0x80, CHR 0xA8], [CHR 0xE2, CHR 0x80, CHR 0xA9],
      [CHR 0xE2, CHR 0x80, CHR 0xAF],
      [CHR 0xE2, CHR 0x81, CHR 0x9F],
      [CHR 0xE3, CHR 0x80, CHR 0x80],
      [CHR 0xEF, CHR 0xBB, CHR 0xBF]]"

definition startsWith :: "string \<Rightarrow> string \<Rightarrow> bool" where
  "startsWith s w = (w \<noteq> [] \<and> take (length w) s = w)"

text \<open>Removes, from the front of \<open>s\<close>, every leading occurrence of a word of \<open>ws\<close>.\<close>

function stripLeading :: "string list \<Rightarrow> string \<Rightarrow> string" where
  "stripLeading ws s =
     (case find (startsWith s) ws of
        None \<Rightarrow> s
      | Some w \<Rightarrow> stripLeading ws (drop (length w) s))"
  by pat_completeness auto
termination
proof (relation "measure (\<lambda>(ws, s). length s)")
  show "wf (measure (\<lambda>(ws, s). length s))" by simp
next
  fix ws :: "string list" and s w :: string
  assume "find (startsWith s) ws = Some w"
  then have "startsWith s w" by (auto simp: find_Some_iff)
  then have nonempty: "w \<noteq> []" and taken: "take (length w) s = w"
    by (simp_all add: startsWith_def)
  from nonempty have "0 < length w" by simp
  moreover have "length w \<le> length s"
  proof -
    from taken have "length (take (length w) s) = length w" by simp
    then show ?thesis by simp
  qed
  ultimately have "length s - length w < length s" by arith
  then show "((ws, drop (length w) s), (ws, s)) \<in> measure (\<lambda>(ws, s). length s)"
    by simp
qed

declare stripLeading.simps [simp del]

definition trimStart :: "string \<Rightarrow> string" where
  "trimStart s = stripLeading whiteSpace s"

definition trimEnd :: "string \<Rightarrow> string" where
  "trimEnd s = rev (stripLeading (map rev whiteSpace) (rev s))"

definition trim :: "string \<Rightarrow> string" where
  "trim s = trimEnd (trimStart s)"

text \<open>
  The decimal numeral of a whole number, as a template literal renders it (for
  magnitudes below \<open>10^21\<close>, where the source's rendering has no exponent).
\<close>

fun string_of_nat :: "nat \<Rightarrow> string" where
  "string_of_nat n =
     (if n < 10 then [''0123456789'' ! n]
      else string_of_nat (n div 10) @ [''0123456789'' ! (n mod 10)])"

definition numberToString :: "int \<Rightarrow> string" where
  "numberToString n =
     (if n < 0 then ''-'' @ string_of_nat (nat (- n)) else string_of_nat (nat n))"

subsection \<open>Results, responses and the data of the pipeline\<close>

text \<open>\<open>HandlerResult<T> = HandlerSuccess<T> | HandlerFailure\<close>: status and message.\<close>

datatype 'a HandlerResult =
    HandlerSuccess 'a
  | HandlerFailure int string

definition success :: "'a \<Rightarrow> 'a HandlerResult" where
  "success v = HandlerSuccess v"

definition failure :: "int \<Rightarrow> string \<Rightarrow> 'a HandlerResult" where
  "failure st message = HandlerFailure st message"

type_synonym Headers = "(string \<times> string) list"

fun headers_set :: "string \<Rightarrow> string \<Rightarrow> Headers \<Rightarrow> Headers" where
  "headers_set name v [] = [(name, v)]"
| "headers_set name v ((name', v') # hs) =
     (if name = name' then (name, v) # hs else (name', v') # headers_set name v hs)"

definition headers_get :: "Headers \<Rightarrow> string \<Rightarrow> string option" where
  "headers_get hs name = map_of hs name"

record Response =
  status :: int
  headers :: Headers
  body :: string

record Request =
  url :: string

record Env =
  RESEND_API_KEY :: string
  RESEND_JWT_SECRET :: string

record Credentials =
  apiKey :: string
  jwtSecret :: string

record Claims =
  emailId :: string
  issuedAtSeconds :: int
  expiresAtSeconds :: int

type_synonym JWTPayload = "(string \<times> jsvalue) list"

text \<open>What \<open>jwtVerify\<close> throws; the worker's \<open>catch\<close> takes every one of them.\<close>

datatype JOSEError =
    JWSInvalid
  | JWSSignatureVerificationFailed
  | JWTExpired
  | JWTInvalid
  | JWTClaimValidationFailed
  | JOSEAlgNotAllowed
  | OtherError string

text \<open>What \<open>resend.emails.get\<close> resolves to: \<open>{ data, error }\<close>.\<close>

record ResendResponse =
  data :: jsvalue
  error :: jsvalue

text \<open>
  The collaborators of the worker.
  \<^item> \<open>searchParamsGet u name\<close> is \<open>new URL(u).searchParams.get(name)\<close>, \<open>None\<close> for \<open>null\<close>.
  \<^item> \<open>jwtVerify token secretBytes\<close> is the payload of a verified token, or the error
    thrown.
  \<^item> \<open>resendEmailsGet key id\<close> is \<open>new Resend(key).emails.get(id)\<close>, \<open>None\<close> when the
    client throws.
  \<^item> \<open>dateNow\<close> is what \<open>Date.now()\<close> returns when the response is built, in
    milliseconds.
\<close>

record Platform =
  searchParamsGet :: "string \<Rightarrow> string \<Rightarrow> string option"
  jwtVerify :: "string \<Rightarrow> string \<Rightarrow> JOSEError + JWTPayload"
  resendEmailsGet :: "string \<Rightarrow> string \<Rightarrow> ResendResponse option"
  dateNow :: int

text \<open>The edge cache, \<open>caches.default\<close>: the live entries, by the URL of the key.\<close>

type_synonym Cache = "string \<Rightarrow> Response option"

definition cache_match :: "Cache \<Rightarrow> Request \<Rightarrow> Response option" where
  "cache_match cache cacheKey = cache (url cacheKey)"

definition cache_put :: "Cache \<Rightarrow> Request \<Rightarrow> Response \<Rightarrow> Cache" where
  "cache_put cache cacheKey r = cache(url cacheKey \<mapsto> r)"

subsection \<open>The functions of src/index.ts\<close>

definition createCacheKey :: "Request \<Rightarrow> Request" where
  "createCacheKey request = \<lparr>url = url request\<rparr>"

definition createErrorResponse :: "string \<Rightarrow> int \<Rightarrow> Response" where
  "createErrorResponse message st =
     \<lparr>status = st,
      headers = [(''content-type'', ''text/plain; charset=utf-8'')],
      body = message\<rparr>"

definition createSuccessResponse :: "string \<Rightarrow> int \<Rightarrow> Response" where
  "createSuccessResponse html ttlSeconds =
     (let hs = [(''content-type'', ''text/html; charset=utf-8'')];
          hs' = (if ttlSeconds > 0
                 then headers_set ''cache-control''
                        (''public, max-age='' @ numberToString ttlSeconds
                           @ '', s-maxage='' @ numberToString ttlSeconds) hs
                 else headers_set ''cache-control'' ''no-store'' hs)
      in \<lparr>status = 200, headers = hs', body = html\<rparr>)"

definition normalizeSecret :: "string \<Rightarrow> string HandlerResult" where
  "normalizeSecret v =
     (let trimmed = trim v
      in if length trimmed = 0 then failure 500 ''Server misconfigured''
         else success trimmed)"

definition validateEnv :: "Env \<Rightarrow> Credentials HandlerResult" where
  "validateEnv env =
     (case normalizeSecret (RESEND_API_KEY env) of
        HandlerFailure st message \<Rightarrow> HandlerFailure st message
      | HandlerSuccess apiKeyValue \<Rightarrow>
          (case normalizeSecret (RESEND_JWT_SECRET env) of
             HandlerFailure st message \<Rightarrow> HandlerFailure st message
           | HandlerSuccess jwtSecretValue \<Rightarrow>
               success \<lparr>apiKey = apiKeyValue, jwtSecret = jwtSecretValue\<rparr>))"

definition isRecord :: "jsvalue \<Rightarrow> bool" where
  "isRecord v = (typeof v = ''object'' \<and> v \<noteq> JNull)"

definition isResendClientError :: "jsvalue \<Rightarrow> bool" where
  "isResendClientError v =
     (if \<not> isRecord v then False
      else typeof (getProperty v ''message'') = ''string'')"

definition extractEmailId :: "JWTPayload \<Rightarrow> string HandlerResult" where
  "extractEmailId payload =
     (case getProperty (JObject payload) ''email_id'' of
        JString candidate \<Rightarrow>
          (if length candidate > 0 then success candidate
           else failure 400 ''Token payload missing email_id'')
      | _ \<Rightarrow> failure 400 ''Token payload missing email_id'')"

text \<open>\<open>textEncoder.encode\<close>: the UTF-8 bytes of a string, which is the string here.\<close>

definition textEncoder_encode :: "string \<Rightarrow> string" where
  "textEncoder_encode s = s"

definition resolveEmailId :: "Platform \<Rightarrow> string \<Rightarrow> string \<Rightarrow> Claims HandlerResult" where
  "resolveEmailId p token secret =
     (let secretBytes = textEncoder_encode secret
      in case jwtVerify p token secretBytes of
           Inl thrown \<Rightarrow> failure 401 ''Invalid or expired token''
         | Inr payload \<Rightarrow>
             (case extractEmailId payload of
                HandlerFailure st message \<Rightarrow> HandlerFailure st message
              | HandlerSuccess emailIdValue \<Rightarrow>
                  (case (getProperty (JObject payload) ''iat'',
                         getProperty (JObject payload) ''exp'') of
                     (JNumber iatValue, JNumber expValue) \<Rightarrow>
                       success \<lparr>emailId = emailIdValue,
                                issuedAtSeconds = iatValue,
                                expiresAtSeconds = expValue\<rparr>
                   | _ \<Rightarrow> failure 400 ''Token missing required timestamps'')))"

definition fetchEmailHtml :: "Platform \<Rightarrow> string \<Rightarrow> string \<Rightarrow> string HandlerResult" where
  "fetchEmailHtml p emailIdValue key =
     (case resendEmailsGet p key emailIdValue of
        None \<Rightarrow> failure 502 ''Unable to fetch email''
      | Some r \<Rightarrow>
          if error r \<noteq> JNull \<and> error r \<noteq> JUndefined then
            (if isResendClientError (error r) then
               (case getProperty (error r) ''message'' of
                  JString message \<Rightarrow> failure 502 message
                | _ \<Rightarrow> failure 502 ''Unable to fetch email'')
             else failure 502 ''Unable to fetch email'')
          else if data r = JNull \<or> data r = JUndefined then
            failure 404 ''Email not found''
          else
            (case getProperty (data r) ''html'' of
               JString htmlCandidate \<Rightarrow>
                 (if length htmlCandidate = 0 then failure 502 ''Email body is unavailable''
                  else success htmlCandidate)
             | _ \<Rightarrow> failure 502 ''Email body is unavailable''))"

definition extractTokenFromRequest :: "Platform \<Rightarrow> Request \<Rightarrow> string HandlerResult" where
  "extractTokenFromRequest p request =
     (case searchParamsGet p (url request) ''token'' of
        None \<Rightarrow> failure 400 ''Token not provided''
      | Some token \<Rightarrow>
          (let trimmed = trim token
           in if length trimmed = 0 then failure 400 ''Token not provided''
              else success trimmed))"

text \<open>
  What one run of the route handler does: the response returned, the write handed to
  \<open>waitUntil\<close> (at most one \<open>cache.put\<close>), and the calls made to the verifier, as
  (token, secret), and to the provider, as (email id, API key), in order.
\<close>

record Outcome =
  response :: Response
  cachePut :: "(Request \<times> Response) option"
  verifyCalls :: "(string \<times> string) list"
  fetchCalls :: "(string \<times> string) list"

definition handler :: "Platform \<Rightarrow> Env \<Rightarrow> Cache \<Rightarrow> Request \<Rightarrow> Outcome" where
  "handler p env cache request =
     (let cacheKey = createCacheKey request
      in case cache_match cache cacheKey of
           Some cached \<Rightarrow>
             \<lparr>response = cached, cachePut = None, verifyCalls = [], fetchCalls = []\<rparr>
         | None \<Rightarrow>
             (case validateEnv env of
                HandlerFailure st message \<Rightarrow>
                  \<lparr>response = createErrorResponse message st, cachePut = None,
                   verifyCalls = [], fetchCalls = []\<rparr>
              | HandlerSuccess creds \<Rightarrow>
                  (case extractTokenFromRequest p request of
                     HandlerFailure st message \<Rightarrow>
                       \<lparr>response = createErrorResponse message st, cachePut = None,
                        verifyCalls = [], fetchCalls = []\<rparr>
                   | HandlerSuccess token \<Rightarrow>
                       (case resolveEmailId p token (jwtSecret creds) of
                          HandlerFailure st message \<Rightarrow>
                            \<lparr>response = createErrorResponse message st, cachePut = None,
                             verifyCalls = [(token, jwtSecret creds)], fetchCalls = []\<rparr>
                        | HandlerSuccess claims \<Rightarrow>
                            (case fetchEmailHtml p (emailId claims) (apiKey creds) of
                               HandlerFailure st message \<Rightarrow>
                                 \<lparr>response = createErrorResponse message st, cachePut = None,
                                  verifyCalls = [(token, jwtSecret creds)],
                                  fetchCalls = [(emailId claims, apiKey creds)]\<rparr>
                             | HandlerSuccess html \<Rightarrow>
                                 (let maxAgeSeconds =
                                        expiresAtSeconds claims - dateNow p div 1000;
                                      r = createSuccessResponse html maxAgeSeconds
                                  in \<lparr>response = r,
                                      cachePut = (if maxAgeSeconds > 0
                                                  then Some (cacheKey, r) else None),
                                      verifyCalls = [(token, jwtSecret creds)],
                                      fetchCalls = [(emailId claims, apiKey creds)]\<rparr>))))))"

text \<open>The cache once the write of an outcome, if it scheduled one, has been done.\<close>

definition afterWrite :: "Cache \<Rightarrow> Outcome \<Rightarrow> Cache" where
  "afterWrite cache out =
     (case cachePut out of
        None \<Rightarrow> cache
      | Some (cacheKey, r) \<Rightarrow> cache_put cache cacheKey r)"

subsection \<open>The verifier as the library behaves\<close>

text \<open>
  \<open>jose\<close> is not part of the repository, and the functions above take its \<open>jwtVerify\<close>
  as it comes. Where a property depends on which tokens the library accepts, this is the
  library's behaviour, from its documented contract. A token decodes to the key whose
  HMAC signature it carries and to its payload (\<open>None\<close>: the string is not a well-formed
  token). \<open>jwtVerify\<close> throws when the token does not decode or is signed with another
  key; then it validates the claims set against its own clock, in this order: a present
  \<open>iat\<close> must be a number; a present \<open>nbf\<close> must be a number and not lie in the future; a
  present \<open>exp\<close> must be a number and lie in the future. A claim that is absent passes.
\<close>

record DecodedToken =
  tokenKey :: string
  tokenClaims :: JWTPayload

definition joseClaimsSet :: "int \<Rightarrow> JWTPayload \<Rightarrow> JOSEError + JWTPayload" where
  "joseClaimsSet nowSeconds claimsSet =
     (let iatClaim = getProperty (JObject claimsSet) ''iat'';
          nbfClaim = getProperty (JObject claimsSet) ''nbf'';
          expClaim = getProperty (JObject claimsSet) ''exp''
      in if iatClaim \<noteq> JUndefined \<and> typeof iatClaim \<noteq> ''number''
           then Inl JWTClaimValidationFailed
         else if nbfClaim \<noteq> JUndefined \<and> typeof nbfClaim \<noteq> ''number''
           then Inl JWTClaimValidationFailed
         else if (case nbfClaim of JNumber notBefore \<Rightarrow> notBefore > nowSeconds | _ \<Rightarrow> False)
           then Inl JWTClaimValidationFailed
         else if expClaim \<noteq> JUndefined \<and> typeof expClaim \<noteq> ''number''
           then Inl JWTClaimValidationFailed
         else if (case expClaim of JNumber expiry \<Rightarrow> expiry \<le> nowSeconds | _ \<Rightarrow> False)
           then Inl JWTExpired
         else Inr claimsSet)"

definition joseJwtVerify ::
  "(string \<Rightarrow> DecodedToken option) \<Rightarrow> int \<Rightarrow> string \<Rightarrow> string \<Rightarrow> JOSEError + JWTPayload" where
  "joseJwtVerify decode nowSeconds token secretBytes =
     (case decode token of
        None \<Rightarrow> Inl JWSInvalid
      | Some decoded \<Rightarrow>
          if tokenKey decoded \<noteq> secretBytes then Inl JWSSignatureVerificationFailed
          else joseClaimsSet nowSeconds (tokenClaims decoded))"

subsection \<open>The bindings at run time\<close>

text \<open>
  \<open>interface Env\<close> declares both bindings as strings, and \<open>handler\<close> above takes them so.
  The runtime hands over whatever the deployment has set: a binding that was never set
  reads as \<open>undefined\<close> (\<open>None\<close> here), and \<open>value.trim()\<close> on it throws a \<open>TypeError\<close>. The
  route handler has no \<open>try\<close> around \<open>validateEnv\<close>, so the throw leaves it. The three
  functions below are \<open>normalizeSecret\<close>, \<open>validateEnv\<close> and the route handler once more,
  with that case written out.
\<close>

record RuntimeEnv =
  apiKeyBinding :: "string option"
  jwtSecretBinding :: "string option"

datatype Uncaught = TypeError

definition normalizeSecretAtRunTime :: "string option \<Rightarrow> Uncaught + string HandlerResult" where
  "normalizeSecretAtRunTime binding =
     (case binding of
        None \<Rightarrow> Inl TypeError
      | Some v \<Rightarrow>
          (let trimmed = trim v
           in if length trimmed = 0 then Inr (failure 500 ''Server misconfigured'')
              else Inr (success trimmed)))"

definition validateEnvAtRunTime :: "RuntimeEnv \<Rightarrow> Uncaught + Credentials HandlerResult" where
  "validateEnvAtRunTime renv =
     (case normalizeSecretAtRunTime (apiKeyBinding renv) of
        Inl thrown \<Rightarrow> Inl thrown
      | Inr (HandlerFailure st message) \<Rightarrow> Inr (HandlerFailure st message)
      | Inr (HandlerSuccess apiKeyValue) \<Rightarrow>
          (case normalizeSecretAtRunTime (jwtSecretBinding renv) of
             Inl thrown \<Rightarrow> Inl thrown
           | Inr (HandlerFailure st message) \<Rightarrow> Inr (HandlerFailure st message)
           | Inr (HandlerSuccess jwtSecretValue) \<Rightarrow>
               Inr (success \<lparr>apiKey = apiKeyValue, jwtSecret = jwtSecretValue\<rparr>)))"

definition handlerAtRunTime ::
  "Platform \<Rightarrow> RuntimeEnv \<Rightarrow> Cache \<Rightarrow> Request \<Rightarrow> Uncaught + Outcome" where
  "handlerAtRunTime p renv cache request =
     (let cacheKey = createCacheKey request
      in case cache_match cache cacheKey of
           Some cached \<Rightarrow>
             Inr \<lparr>response = cached, cachePut = None, verifyCalls = [], fetchCalls = []\<rparr>
         | None \<Rightarrow>
             (case validateEnvAtRunTime renv of
                Inl thrown \<Rightarrow> Inl thrown
              | Inr (HandlerFailure st message) \<Rightarrow>
                  Inr \<lparr>response = createErrorResponse message st, cachePut = None,
                       verifyCalls = [], fetchCalls = []\<rparr>
              | Inr (HandlerSuccess creds) \<Rightarrow>
                  (case extractTokenFromRequest p request of
                     HandlerFailure st message \<Rightarrow>
                       Inr \<lparr>response = createErrorResponse message st, cachePut = None,
                            verifyCalls = [], fetchCalls = []\<rparr>
                   | HandlerSuccess token \<Rightarrow>
                       (case resolveEmailId p token (jwtSecret creds) of
                          HandlerFailure st message \<Rightarrow>
                            Inr \<lparr>response = createErrorResponse message st, cachePut = None,
                                 verifyCalls = [(token, jwtSecret creds)], fetchCalls = []\<rparr>
                        | HandlerSuccess claims \<Rightarrow>
                            (case fetchEmailHtml p (emailId claims) (apiKey creds) of
                               HandlerFailure st message \<Rightarrow>
                                 Inr \<lparr>response = createErrorResponse message st,
                                      cachePut = None,
                                      verifyCalls = [(token, jwtSecret creds)],
                                      fetchCalls = [(emailId claims, apiKey creds)]\<rparr>
                             | HandlerSuccess html \<Rightarrow>
                                 (let maxAgeSeconds =
                                        expiresAtSeconds claims - dateNow p div 1000;
                                      r = createSuccessResponse html maxAgeSeconds
                                  in Inr \<lparr>response = r,
                                          cachePut = (if maxAgeSeconds > 0
                                                      then Some (cacheKey, r) else None),
                                          verifyCalls = [(token, jwtSecret creds)],
                                          fetchCalls = [(emailId claims, apiKey creds)]\<rparr>))))))"

text \<open>
  What the client gets, \<open>app.fetch\<close>: the source registers no \<open>app.onError\<close>, so a throw of
  the route handler is answered by the default error handler of the framework (Hono,
  not part of the repository), \<open>c.text("Internal Server Error", 500)\<close>.
\<close>

definition internalServerError :: Response where
  "internalServerError =
     \<lparr>status = 500,
      headers = [(''content-type'', ''text/plain; charset=UTF-8'')],
      body = ''Internal Server Error''\<rparr>"

definition appFetch :: "Platform \<Rightarrow> RuntimeEnv \<Rightarrow> Cache \<Rightarrow> Request \<Rightarrow> Outcome" where
  "appFetch p renv cache request =
     (case handlerAtRunTime p renv cache request of
        Inl thrown \<Rightarrow>
          \<lparr>response = internalServerError, cachePut = None, verifyCalls = [], fetchCalls = []\<rparr>
      | Inr out \<Rightarrow> out)"

subsection \<open>The fixtures of the repository's test\<close>

text \<open>
  The values the test of the worker runs on: its environment, the payload its
  \<open>createToken\<close> signs (\<open>exp\<close> is \<open>iat + 120\<close>) and its mock of the Resend client.
  The verifier and the URL parser are tables here: a token stands for what \<open>jwtVerify\<close>
  makes of it under the secret of \<open>baseEnv\<close>, a URL for the value of its \<open>token\<close>
  parameter (a \<open>+\<close> in a query string decodes to a space).
\<close>

definition baseEnv :: Env where
  "baseEnv = \<lparr>RESEND_API_KEY = ''test-api-key'', RESEND_JWT_SECRET = ''test-secret''\<rparr>"

definition tokenPayload :: JWTPayload where
  "tokenPayload =
     [(''email_id'', JString ''email-123''),
      (''iat'', JNumber 1700000000),
      (''exp'', JNumber 1700000120)]"

definition testTokens :: "(string \<times> (JOSEError + JWTPayload)) list" where
  "testTokens =
     [(''signed-token'', Inr tokenPayload),
      (''expired-token'', Inl JWTExpired),
      (''tampered-token'', Inl JWSSignatureVerificationFailed),
      (''no-subject-token'', Inr [(''iat'', JNumber 1700000000), (''exp'', JNumber 1700000120)]),
      (''no-timestamps-token'', Inr [(''email_id'', JString ''email-123'')]),
      (''bare-token'', Inr [])]"

definition testUrls :: "(string \<times> string) list" where
  "testUrls =
     [(''https://example.com/?token=signed-token'', ''signed-token''),
      (''https://example.com/?token=+signed-token+'', '' signed-token ''),
      (''https://example.com/?token=++'', ''  ''),
      (''https://example.com/?token=expired-token'', ''expired-token''),
      (''https://example.com/?token=bare-token'', ''bare-token'')]"

definition testPlatform :: Platform where
  "testPlatform =
     \<lparr>searchParamsGet = (\<lambda>u name. if name = ''token'' then map_of testUrls u else None),
      jwtVerify = (\<lambda>token secretBytes.
         if secretBytes = ''test-secret''
         then (case map_of testTokens token of None \<Rightarrow> Inl JWSInvalid | Some r \<Rightarrow> r)
         else Inl JWSSignatureVerificationFailed),
      resendEmailsGet = (\<lambda>key emailIdValue.
         Some \<lparr>data = JObject [(''html'', JString ''<p>email-123</p>'')], error = JNull\<rparr>),
      dateNow = 1700000000500\<rparr>"

text \<open>The test platform with another answer of the provider (\<open>None\<close>: the client throws).\<close>

definition provider :: "ResendResponse option \<Rightarrow> Platform" where
  "provider answer = testPlatform\<lparr>resendEmailsGet := (\<lambda>key emailIdValue. answer)\<rparr>"

text \<open>
  Tokens as the library reads them, all signed with the secret of \<open>baseEnv\<close>, and the
  test platform with the library's verifier on them, its clock at the second the test
  token is issued. The last two tokens carry a timestamp that is text, not a number.
\<close>

definition testDecode :: "string \<Rightarrow> DecodedToken option" where
  "testDecode token =
     map_option (\<lambda>claimsSet. \<lparr>tokenKey = ''test-secret'', tokenClaims = claimsSet\<rparr>)
       (map_of
          [(''signed-token'', tokenPayload),
           (''no-subject-token'', [(''iat'', JNumber 1700000000), (''exp'', JNumber 1700000120)]),
           (''no-timestamps-token'', [(''email_id'', JString ''email-123'')]),
           (''bare-token'', []),
           (''text-iat-token'',
            [(''email_id'', JString ''email-123''), (''iat'', JString ''2023-11-14''),
             (''exp'', JNumber 1700000120)]),
           (''text-exp-token'', [(''exp'', JString ''never'')])]
          token)"

definition josePlatform :: Platform where
  "josePlatform = testPlatform\<lparr>jwtVerify := joseJwtVerify testDecode 1700000000\<rparr>"

subsection \<open>The cache over many requests\<close>

text \<open>
  The caches that runs of the handler can leave behind, for a fixed URL parser
  \<open>parse\<close>: the cache starts empty; a run of the handler looks up the cache as it was
  when the request came in (\<open>seen\<close>) and its write, if any, lands in the cache as it
  is by then; and the cache may drop any entry at any time (expiry, eviction).
\<close>

inductive reachable :: "(string \<Rightarrow> string \<Rightarrow> string option) \<Rightarrow> Cache \<Rightarrow> bool"
  for parse :: "string \<Rightarrow> string \<Rightarrow> string option" where
  initial: "reachable parse Map.empty"
| written: "reachable parse cache \<Longrightarrow> reachable parse seen \<Longrightarrow> searchParamsGet p = parse \<Longrightarrow>
     reachable parse (afterWrite cache (handler p env seen request))"
| evicted: "reachable parse cache \<Longrightarrow> reachable parse (cache(u := None))"

section \<open>Properties\<close>

lemmas fixture_defs = baseEnv_def tokenPayload_def testTokens_def testUrls_def testPlatform_def
  provider_def testDecode_def josePlatform_def

lemmas stage_defs = validateEnv_def normalizeSecret_def extractTokenFromRequest_def
  resolveEmailId_def extractEmailId_def fetchEmailHtml_def isResendClientError_def isRecord_def
  textEncoder_encode_def success_def failure_def createCacheKey_def cache_match_def
  cache_put_def afterWrite_def createErrorResponse_def createSuccessResponse_def
  numberToString_def headers_get_def Let_def

subsection \<open>Trimming\<close>

lemma stripLeading_fixed:
  "find (startsWith s) ws = None \<Longrightarrow> stripLeading ws s = s"
  by (subst stripLeading.simps) simp

lemma stripLeading_step:
  "find (startsWith s) ws = Some w \<Longrightarrow> stripLeading ws s = stripLeading ws (drop (length w) s)"
  by (subst stripLeading.simps) simp

text \<open>What is left starts with no word of the table.\<close>

lemma stripLeading_done:
  "find (startsWith (stripLeading ws s)) ws = None"
proof (induction ws s rule: stripLeading.induct)
  case (1 ws s)
  show ?case
  proof (cases "find (startsWith s) ws")
    case None
    then show ?thesis by (simp add: stripLeading_fixed)
  next
    case (Some w)
    with "1.IH" [OF Some] show ?thesis by (simp add: stripLeading_step)
  qed
qed

lemma stripLeading_idem: "stripLeading ws (stripLeading ws s) = stripLeading ws s"
  by (rule stripLeading_fixed) (rule stripLeading_done)

lemma stripLeading_suffix: "\<exists>front. s = front @ stripLeading ws s"
proof (induction ws s rule: stripLeading.induct)
  case (1 ws s)
  show ?case
  proof (cases "find (startsWith s) ws")
    case None
    then have "s = [] @ stripLeading ws s" by (simp add: stripLeading_fixed)
    then show ?thesis ..
  next
    case (Some w)
    from "1.IH" [OF Some] obtain front
      where "drop (length w) s = front @ stripLeading ws (drop (length w) s)" ..
    then have "s = (take (length w) s @ front) @ stripLeading ws (drop (length w) s)"
      by (metis append.assoc append_take_drop_id)
    then have "s = (take (length w) s @ front) @ stripLeading ws s"
      by (simp only: stripLeading_step [OF Some])
    then show ?thesis ..
  qed
qed

lemma trimEnd_prefix: "\<exists>rest. s = trimEnd s @ rest"
proof -
  obtain front where "rev s = front @ stripLeading (map rev whiteSpace) (rev s)"
    using stripLeading_suffix by blast
  then have "rev (rev s) = rev (front @ stripLeading (map rev whiteSpace) (rev s))"
    by simp
  then have "s = trimEnd s @ rev front" by (simp add: trimEnd_def)
  then show ?thesis ..
qed

lemma startsWith_append: "startsWith s w \<Longrightarrow> startsWith (s @ t) w"
proof -
  assume a: "startsWith s w"
  then have "length (take (length w) s) = length w" by (simp add: startsWith_def)
  then have "length w \<le> length s" by simp
  with a show ?thesis by (simp add: startsWith_def)
qed

lemma find_startsWith_prefix:
  "find (startsWith (s @ t)) ws = None \<Longrightarrow> find (startsWith s) ws = None"
  by (auto simp: find_None_iff dest: startsWith_append)

lemma trimEnd_idem: "trimEnd (trimEnd s) = trimEnd s"
  by (simp add: trimEnd_def stripLeading_idem)

text \<open>Cutting the end of a string that starts with no white space leaves such a string.\<close>

lemma trimStart_trimEnd_trimStart: "trimStart (trimEnd (trimStart s)) = trimEnd (trimStart s)"
proof -
  obtain rest where cut: "trimStart s = trimEnd (trimStart s) @ rest"
    using trimEnd_prefix by blast
  have "find (startsWith (trimStart s)) whiteSpace = None"
    unfolding trimStart_def by (rule stripLeading_done)
  with cut have "find (startsWith (trimEnd (trimStart s))) whiteSpace = None"
    by (metis find_startsWith_prefix)
  then have "stripLeading whiteSpace (trimEnd (trimStart s)) = trimEnd (trimStart s)"
    by (rule stripLeading_fixed)
  then show ?thesis by (simp add: trimStart_def)
qed

lemma trim_idem: "trim (trim s) = trim s"
  by (simp add: trim_def trimStart_trimEnd_trimStart trimEnd_idem)

text \<open>No word of the table starts another one: UTF-8 is prefix-free.\<close>

lemma whiteSpace_prefix_free:
  "a \<in> set whiteSpace \<Longrightarrow> b \<in> set whiteSpace \<Longrightarrow> take (length a) b = a \<Longrightarrow> a = b"
  unfolding whiteSpace_def by (elim disjE | simp)+

lemma whiteSpace_nonempty: "w \<in> set whiteSpace \<Longrightarrow> w \<noteq> []"
  unfolding whiteSpace_def by auto

text \<open>What \<open>stripLeading\<close> removes is a sequence of words of the table.\<close>

lemma stripLeading_parts:
  "\<exists>parts. set parts \<subseteq> set ws \<and> s = concat parts @ stripLeading ws s"
proof (induction ws s rule: stripLeading.induct)
  case (1 ws s)
  show ?case
  proof (cases "find (startsWith s) ws")
    case None
    then have "set [] \<subseteq> set ws \<and> s = concat [] @ stripLeading ws s"
      by (simp add: stripLeading_fixed)
    then show ?thesis by blast
  next
    case (Some w)
    from "1.IH" [OF Some] obtain parts where
      parts: "set parts \<subseteq> set ws"
        "drop (length w) s = concat parts @ stripLeading ws (drop (length w) s)"
      by blast
    from Some have w: "w \<in> set ws" "take (length w) s = w"
      by (auto simp: find_Some_iff startsWith_def)
    have "s = take (length w) s @ drop (length w) s" by simp
    also have "\<dots> = w @ concat parts @ stripLeading ws (drop (length w) s)"
      using w(2) parts(2) by simp
    finally have "s = concat (w # parts) @ stripLeading ws s"
      by (simp add: stripLeading_step [OF Some])
    moreover from w(1) parts(1) have "set (w # parts) \<subseteq> set ws" by simp
    ultimately show ?thesis by blast
  qed
qed

text \<open>A string made of white space only is trimmed to nothing, and only such a string is.\<close>

lemma trimStart_only_whiteSpace:
  "set parts \<subseteq> set whiteSpace \<Longrightarrow> trimStart (concat parts) = []"
proof (induction parts)
  case Nil
  have "find (startsWith []) whiteSpace = None"
    by (auto simp: find_None_iff startsWith_def)
  then show ?case by (simp add: trimStart_def stripLeading_fixed)
next
  case (Cons w parts)
  then have w: "w \<in> set whiteSpace" and rest: "set parts \<subseteq> set whiteSpace" by simp_all
  let ?s = "w @ concat parts"
  from w have "startsWith ?s w" by (simp add: startsWith_def whiteSpace_nonempty)
  with w obtain w' where found: "find (startsWith ?s) whiteSpace = Some w'"
    by (cases "find (startsWith ?s) whiteSpace") (auto simp: find_None_iff)
  then have w': "w' \<in> set whiteSpace" "take (length w') ?s = w'"
    by (auto simp: find_Some_iff startsWith_def)
  have "w' = w"
  proof (cases "length w' \<le> length w")
    case True
    with w'(2) have "take (length w') w = w'" by simp
    from whiteSpace_prefix_free [OF w'(1) w this] show ?thesis .
  next
    case False
    have "take (length w) w' = take (length w) (take (length w') ?s)"
      using w'(2) by simp
    also have "\<dots> = take (length w) ?s" using False by (simp add: min_def)
    also have "\<dots> = w" by simp
    finally have "take (length w) w' = w" .
    from whiteSpace_prefix_free [OF w w'(1) this] show ?thesis by simp
  qed
  with found have "stripLeading whiteSpace ?s = stripLeading whiteSpace (concat parts)"
    by (simp add: stripLeading_step)
  with Cons.IH [OF rest] show ?case by (simp add: trimStart_def)
qed

lemma blank_iff_only_whiteSpace:
  "trim s = [] \<longleftrightarrow> (\<exists>parts. set parts \<subseteq> set whiteSpace \<and> s = concat parts)"
proof
  assume blank: "trim s = []"
  obtain front where front: "set front \<subseteq> set whiteSpace" "s = concat front @ trimStart s"
    using stripLeading_parts [of whiteSpace s] by (auto simp: trimStart_def)
  obtain tail where tail: "set tail \<subseteq> set (map rev whiteSpace)"
    "rev (trimStart s) = concat tail @ stripLeading (map rev whiteSpace) (rev (trimStart s))"
    using stripLeading_parts [of "map rev whiteSpace" "rev (trimStart s)"] by auto
  from blank have "stripLeading (map rev whiteSpace) (rev (trimStart s)) = []"
    by (simp add: trim_def trimEnd_def)
  with tail(2) have "rev (trimStart s) = concat tail" by simp
  then have "trimStart s = rev (concat tail)" by (metis rev_rev_ident)
  then have "trimStart s = concat (rev (map rev tail))" by (simp add: rev_concat rev_map)
  with front(2) have "s = concat (front @ rev (map rev tail))" by simp
  moreover from tail(1) have "set (rev (map rev tail)) \<subseteq> set whiteSpace" by auto
  with front(1) have "set (front @ rev (map rev tail)) \<subseteq> set whiteSpace" by simp
  ultimately show "\<exists>parts. set parts \<subseteq> set whiteSpace \<and> s = concat parts" by blast
next
  assume "\<exists>parts. set parts \<subseteq> set whiteSpace \<and> s = concat parts"
  then obtain parts where "set parts \<subseteq> set whiteSpace" "s = concat parts" by blast
  then have "trimStart s = []" by (simp add: trimStart_only_whiteSpace)
  moreover have "find (startsWith []) (map rev whiteSpace) = None"
    by (auto simp: find_None_iff startsWith_def)
  ultimately show "trim s = []" by (simp add: trim_def trimEnd_def stripLeading_fixed)
qed

text \<open>\<open>trim\<close> on the strings of the fixtures.\<close>

lemma trim_fixtures:
  "trim [] = []"
  "trim ''  '' = []"
  "trim [CHR 0x20, CHR 0x09, CHR 0x0A] = []"
  "trim [CHR 0xC2, CHR 0xA0, CHR 0xEF, CHR 0xBB, CHR 0xBF] = []"
  "trim ''test-api-key'' = ''test-api-key''"
  "trim ''test-secret'' = ''test-secret''"
  "trim ''signed-token'' = ''signed-token''"
  "trim '' signed-token '' = ''signed-token''"
  "trim ''expired-token'' = ''expired-token''"
  "trim ''bare-token'' = ''bare-token''"
  by (simp_all add: trim_def trimStart_def trimEnd_def stripLeading.simps whiteSpace_def
      startsWith_def)

text \<open>\<open>Math.floor(Date.now() / 1000)\<close> on a whole number of milliseconds.\<close>

lemma floor_seconds: "\<lfloor>real_of_int n / 1000\<rfloor> = n div 1000"
  by (metis floor_divide_of_int_eq of_int_numeral)

text \<open>\<open>string_of_nat\<close> writes the decimal numeral: reading the digits back gives the number.\<close>

lemma digit_value: "d < 10 \<Longrightarrow> of_char (''0123456789'' ! d) = 48 + d"
proof -
  assume "d < 10"
  then have "d \<in> {0, 1, 2, 3, 4, 5, 6, 7, 8, 9}" by auto
  then show ?thesis by (elim insertE) simp_all
qed

lemma string_of_nat_value:
  "foldl (\<lambda>acc c. 10 * acc + (of_char c - 48)) 0 (string_of_nat n) = n"
proof (induction n rule: string_of_nat.induct)
  case (1 n)
  show ?case
  proof (cases "n < 10")
    case True
    then show ?thesis by (subst string_of_nat.simps) (simp add: digit_value)
  next
    case False
    have "n mod 10 < 10" by simp
    with False "1.IH" show ?thesis
      by (subst string_of_nat.simps) (simp add: digit_value)
  qed
qed

subsection \<open>The stages\<close>

lemma validateEnv_blank:
  "trim (RESEND_API_KEY env) = [] \<or> trim (RESEND_JWT_SECRET env) = [] \<Longrightarrow>
   validateEnv env = HandlerFailure 500 ''Server misconfigured''"
  by (auto simp: validateEnv_def normalizeSecret_def success_def failure_def Let_def)

lemma validateEnv_present:
  "trim (RESEND_API_KEY env) \<noteq> [] \<Longrightarrow> trim (RESEND_JWT_SECRET env) \<noteq> [] \<Longrightarrow>
   validateEnv env =
     HandlerSuccess \<lparr>apiKey = trim (RESEND_API_KEY env), jwtSecret = trim (RESEND_JWT_SECRET env)\<rparr>"
  by (simp add: validateEnv_def normalizeSecret_def success_def failure_def Let_def)

lemma validateEnv_failure:
  "validateEnv env = HandlerFailure st message \<Longrightarrow> st = 500 \<and> message = ''Server misconfigured''"
  by (auto simp: validateEnv_def normalizeSecret_def success_def failure_def Let_def
      split: if_splits)

lemma extractToken_blank:
  "searchParamsGet p (url request) ''token'' = None
     \<or> (\<exists>t. searchParamsGet p (url request) ''token'' = Some t \<and> trim t = []) \<Longrightarrow>
   extractTokenFromRequest p request = HandlerFailure 400 ''Token not provided''"
  by (auto simp: extractTokenFromRequest_def success_def failure_def Let_def)

lemma extractToken_failure:
  "extractTokenFromRequest p request = HandlerFailure st message \<Longrightarrow>
   st = 400 \<and> message = ''Token not provided''"
  by (auto simp: extractTokenFromRequest_def success_def failure_def Let_def
      split: option.splits if_splits)

lemma extractToken_success:
  "extractTokenFromRequest p request = HandlerSuccess token \<Longrightarrow>
   \<exists>t. searchParamsGet p (url request) ''token'' = Some t \<and> trim t = token \<and> token \<noteq> []"
  by (auto simp: extractTokenFromRequest_def success_def failure_def Let_def
      split: option.splits if_splits)

lemma extractEmailId_failure:
  "extractEmailId payload = HandlerFailure st message \<Longrightarrow> st = 400"
  by (auto simp: extractEmailId_def success_def failure_def split: jsvalue.splits if_splits)

lemma resolveEmailId_failure:
  "resolveEmailId p token secret = HandlerFailure st message \<Longrightarrow> st = 400 \<or> st = 401"
  by (auto simp: resolveEmailId_def success_def failure_def Let_def
      split: sum.splits HandlerResult.splits jsvalue.splits dest: extractEmailId_failure)

lemma fetchEmailHtml_failure:
  "fetchEmailHtml p emailIdValue key = HandlerFailure st message \<Longrightarrow> st = 502 \<or> st = 404"
  by (auto simp: fetchEmailHtml_def success_def failure_def
      split: option.splits if_splits jsvalue.splits)

lemma createSuccessResponse_status: "status (createSuccessResponse html ttl) = 200"
  by (simp add: createSuccessResponse_def Let_def)

lemma createSuccessResponse_headers:
  "headers (createSuccessResponse html ttl) =
     [(''content-type'', ''text/html; charset=utf-8''),
      (''cache-control'',
       if 0 < ttl
       then ''public, max-age='' @ numberToString ttl @ '', s-maxage='' @ numberToString ttl
       else ''no-store'')]"
  by (simp add: createSuccessResponse_def Let_def)

lemma createSuccessResponse_body: "body (createSuccessResponse html ttl) = html"
  by (simp add: createSuccessResponse_def Let_def)

lemma createErrorResponse_fields:
  "status (createErrorResponse message st) = st"
  "body (createErrorResponse message st) = message"
  "headers (createErrorResponse message st) = [(''content-type'', ''text/plain; charset=utf-8'')]"
  by (simp_all add: createErrorResponse_def)

subsection \<open>The paths of the handler\<close>

text \<open>One lemma for each \<open>return\<close> of the route handler, in the order of the source.\<close>

lemma handler_hit:
  "cache_match cache (createCacheKey request) = Some cached \<Longrightarrow>
   handler p env cache request =
     \<lparr>response = cached, cachePut = None, verifyCalls = [], fetchCalls = []\<rparr>"
  by (simp add: handler_def Let_def)

lemma handler_env_failure:
  "cache_match cache (createCacheKey request) = None \<Longrightarrow>
   validateEnv env = HandlerFailure st message \<Longrightarrow>
   handler p env cache request =
     \<lparr>response = createErrorResponse message st, cachePut = None,
      verifyCalls = [], fetchCalls = []\<rparr>"
  by (simp add: handler_def Let_def)

lemma handler_token_failure:
  "cache_match cache (createCacheKey request) = None \<Longrightarrow>
   validateEnv env = HandlerSuccess creds \<Longrightarrow>
   extractTokenFromRequest p request = HandlerFailure st message \<Longrightarrow>
   handler p env cache request =
     \<lparr>response = createErrorResponse message st, cachePut = None,
      verifyCalls = [], fetchCalls = []\<rparr>"
  by (simp add: handler_def Let_def)

lemma handler_verify_failure:
  "cache_match cache (createCacheKey request) = None \<Longrightarrow>
   validateEnv env = HandlerSuccess creds \<Longrightarrow>
   extractTokenFromRequest p request = HandlerSuccess token \<Longrightarrow>
   resolveEmailId p token (jwtSecret creds) = HandlerFailure st message \<Longrightarrow>
   handler p env cache request =
     \<lparr>response = createErrorResponse message st, cachePut = None,
      verifyCalls = [(token, jwtSecret creds)], fetchCalls = []\<rparr>"
  by (simp add: handler_def Let_def)

lemma handler_fetch_failure:
  "cache_match cache (createCacheKey request) = None \<Longrightarrow>
   validateEnv env = HandlerSuccess creds \<Longrightarrow>
   extractTokenFromRequest p request = HandlerSuccess token \<Longrightarrow>
   resolveEmailId p token (jwtSecret creds) = HandlerSuccess claims \<Longrightarrow>
   fetchEmailHtml p (emailId claims) (apiKey creds) = HandlerFailure st message \<Longrightarrow>
   handler p env cache request =
     \<lparr>response = createErrorResponse message st, cachePut = None,
      verifyCalls = [(token, jwtSecret creds)],
      fetchCalls = [(emailId claims, apiKey creds)]\<rparr>"
  by (simp add: handler_def Let_def)

lemma handler_success:
  "cache_match cache (createCacheKey request) = None \<Longrightarrow>
   validateEnv env = HandlerSuccess creds \<Longrightarrow>
   extractTokenFromRequest p request = HandlerSuccess token \<Longrightarrow>
   resolveEmailId p token (jwtSecret creds) = HandlerSuccess claims \<Longrightarrow>
   fetchEmailHtml p (emailId claims) (apiKey creds) = HandlerSuccess html \<Longrightarrow>
   handler p env cache request =
     \<lparr>response = createSuccessResponse html (expiresAtSeconds claims - dateNow p div 1000),
      cachePut = (if 0 < expiresAtSeconds claims - dateNow p div 1000
                  then Some (createCacheKey request,
                    createSuccessResponse html (expiresAtSeconds claims - dateNow p div 1000))
                  else None),
      verifyCalls = [(token, jwtSecret creds)],
      fetchCalls = [(emailId claims, apiKey creds)]\<rparr>"
  by (simp add: handler_def Let_def)

text \<open>
  On a cache miss the handler either answers with an error response, whose status is
  one of the five the stages produce, and writes nothing, or every stage has succeeded.
\<close>

lemma handler_miss_cases:
  assumes miss: "cache_match cache (createCacheKey request) = None"
  obtains (failed) st message vc fc where
      "handler p env cache request =
         \<lparr>response = createErrorResponse message st, cachePut = None,
          verifyCalls = vc, fetchCalls = fc\<rparr>"
      "st = 500 \<or> st = 400 \<or> st = 401 \<or> st = 502 \<or> st = 404"
    | (served) creds token claims html where
      "validateEnv env = HandlerSuccess creds"
      "extractTokenFromRequest p request = HandlerSuccess token"
      "resolveEmailId p token (jwtSecret creds) = HandlerSuccess claims"
      "fetchEmailHtml p (emailId claims) (apiKey creds) = HandlerSuccess html"
proof (cases "validateEnv env")
  case (HandlerFailure st message)
  from handler_env_failure [OF miss this] validateEnv_failure [OF this]
  show ?thesis by (intro failed) auto
next
  case env: (HandlerSuccess creds)
  show ?thesis
  proof (cases "extractTokenFromRequest p request")
    case (HandlerFailure st message)
    from handler_token_failure [OF miss env this] extractToken_failure [OF this]
    show ?thesis by (intro failed) auto
  next
    case tok: (HandlerSuccess token)
    show ?thesis
    proof (cases "resolveEmailId p token (jwtSecret creds)")
      case (HandlerFailure st message)
      from handler_verify_failure [OF miss env tok this] resolveEmailId_failure [OF this]
      show ?thesis by (intro failed) auto
    next
      case ver: (HandlerSuccess claims)
      show ?thesis
      proof (cases "fetchEmailHtml p (emailId claims) (apiKey creds)")
        case (HandlerFailure st message)
        from handler_fetch_failure [OF miss env tok ver this] fetchEmailHtml_failure [OF this]
        show ?thesis by (intro failed) auto
      next
        case (HandlerSuccess html)
        with env tok ver show ?thesis by (rule served)
      qed
    qed
  qed
qed

text \<open>What a write of the handler stores, and for which request.\<close>

lemma handler_write:
  assumes "cachePut (handler p env cache request) = Some (cacheKey, stored)"
  shows "url cacheKey = url request \<and> stored = response (handler p env cache request)
    \<and> status stored = 200
    \<and> headers_get (headers stored) ''cache-control'' \<noteq> Some ''no-store''
    \<and> (\<exists>t. searchParamsGet p (url request) ''token'' = Some t \<and> trim t \<noteq> [])"
proof (cases "cache_match cache (createCacheKey request)")
  case (Some cached)
  with assms show ?thesis by (simp add: handler_hit)
next
  case None
  then show ?thesis
  proof (cases rule: handler_miss_cases [of cache request p env])
    case (failed st message vc fc)
    with assms show ?thesis by simp
  next
    case (served creds token claims html)
    from extractToken_success [OF served(2)] obtain t where
      "searchParamsGet p (url request) ''token'' = Some t" "trim t \<noteq> []" by auto
    moreover note handler_success [OF None served]
    ultimately show ?thesis using assms
      by (auto simp: createSuccessResponse_status createSuccessResponse_headers
          headers_get_def createCacheKey_def split: if_splits)
  qed
qed

subsection \<open>The entries of a reachable cache\<close>

text \<open>
  Whatever the requests, the environments, the verifier and the provider have been:
  every entry of the cache is a response with status 200 that is not \<open>no-store\<close>, under a
  URL whose token parameter is not blank.
\<close>

lemma reachable_entries:
  assumes "reachable parse cache" and "cache u = Some stored"
  shows "status stored = 200
    \<and> headers_get (headers stored) ''cache-control'' \<noteq> Some ''no-store''
    \<and> (\<exists>t. parse u ''token'' = Some t \<and> trim t \<noteq> [])"
  using assms
proof (induction arbitrary: u stored rule: reachable.induct)
  case initial
  then show ?case by simp
next
  case (written cache seen p env request)
  show ?case
  proof (cases "cachePut (handler p env seen request)")
    case None
    with written.prems have "cache u = Some stored" by (simp add: afterWrite_def)
    then show ?thesis by (rule written.IH)
  next
    case (Some entry)
    obtain cacheKey r where entry: "entry = (cacheKey, r)" by (cases entry)
    note put = Some [unfolded entry]
    show ?thesis
    proof (cases "u = url cacheKey")
      case True
      with written.prems put have stored: "stored = r"
        by (simp add: afterWrite_def cache_put_def)
      from handler_write [OF put] have
        key: "url cacheKey = url request" and
        ok: "status r = 200" and
        fresh: "headers_get (headers r) ''cache-control'' \<noteq> Some ''no-store''" and
        tok: "\<exists>t. searchParamsGet p (url request) ''token'' = Some t \<and> trim t \<noteq> []"
        by blast+
      from tok True key written.hyps(3)
      have "\<exists>t. parse u ''token'' = Some t \<and> trim t \<noteq> []" by simp
      with ok fresh show ?thesis unfolding stored by blast
    next
      case False
      with written.prems put have "cache u = Some stored"
        by (simp add: afterWrite_def cache_put_def)
      then show ?thesis by (rule written.IH)
    qed
  qed
next
  case (evicted cache u')
  then have "cache u = Some stored" by (simp split: if_splits)
  then show ?case by (rule evicted.IH)
qed

text \<open>So a request without a token never hits a reachable cache.\<close>

lemma reachable_miss_without_token:
  assumes "reachable (searchParamsGet p) cache"
    and "searchParamsGet p (url request) ''token'' = None
      \<or> (\<exists>t. searchParamsGet p (url request) ''token'' = Some t \<and> trim t = [])"
  shows "cache_match cache (createCacheKey request) = None"
proof (rule ccontr)
  assume "cache_match cache (createCacheKey request) \<noteq> None"
  then obtain stored where "cache (url request) = Some stored"
    by (auto simp: cache_match_def createCacheKey_def)
  from reachable_entries [OF assms(1) this] assms(2) show False by auto
qed

subsection \<open>The verifier of the library\<close>

text \<open>A claims set that the library accepts has each timestamp absent or a number.\<close>

lemma joseClaimsSet_accepted:
  assumes "joseClaimsSet nowSeconds claimsSet = Inr payload"
  shows "payload = claimsSet"
    and "getProperty (JObject claimsSet) ''iat'' = JUndefined
      \<or> typeof (getProperty (JObject claimsSet) ''iat'') = ''number''"
    and "getProperty (JObject claimsSet) ''exp'' = JUndefined
      \<or> typeof (getProperty (JObject claimsSet) ''exp'') = ''number''"
  using assms by (auto simp: joseClaimsSet_def Let_def split: if_splits)

lemma joseClaimsSet_text_timestamp:
  assumes "(getProperty (JObject claimsSet) ''iat'' \<noteq> JUndefined
        \<and> typeof (getProperty (JObject claimsSet) ''iat'') \<noteq> ''number'')
      \<or> (getProperty (JObject claimsSet) ''exp'' \<noteq> JUndefined
        \<and> typeof (getProperty (JObject claimsSet) ''exp'') \<noteq> ''number'')"
  shows "\<exists>thrown. joseClaimsSet nowSeconds claimsSet = Inl thrown"
  using assms by (auto simp: joseClaimsSet_def Let_def)


text \<open>What \<open>resolveEmailId\<close> makes of a payload that the verifier has returned.\<close>

lemma resolveEmailId_on_payload:
  assumes verified: "jwtVerify p token (textEncoder_encode secret) = Inr payload"
  shows "(typeof (getProperty (JObject payload) ''email_id'') \<noteq> ''string''
            \<or> getProperty (JObject payload) ''email_id'' = JString [] \<longrightarrow>
          resolveEmailId p token secret = HandlerFailure 400 ''Token payload missing email_id'')
    \<and> (getProperty (JObject payload) ''email_id'' = JString subject \<and> subject \<noteq> []
          \<and> (typeof (getProperty (JObject payload) ''iat'') \<noteq> ''number''
               \<or> typeof (getProperty (JObject payload) ''exp'') \<noteq> ''number'') \<longrightarrow>
          resolveEmailId p token secret = HandlerFailure 400 ''Token missing required timestamps'')
    \<and> (getProperty (JObject payload) ''email_id'' = JString subject \<and> subject \<noteq> []
          \<and> getProperty (JObject payload) ''iat'' = JNumber issued
          \<and> getProperty (JObject payload) ''exp'' = JNumber expires \<longrightarrow>
          resolveEmailId p token secret =
            HandlerSuccess \<lparr>emailId = subject, issuedAtSeconds = issued,
                            expiresAtSeconds = expires\<rparr>)"
proof (intro conjI impI)
  assume "typeof (getProperty (JObject payload) ''email_id'') \<noteq> ''string''
            \<or> getProperty (JObject payload) ''email_id'' = JString []"
  then have "extractEmailId payload = HandlerFailure 400 ''Token payload missing email_id''"
    by (auto simp: extractEmailId_def failure_def split: jsvalue.splits)
  with verified
  show "resolveEmailId p token secret = HandlerFailure 400 ''Token payload missing email_id''"
    by (simp add: resolveEmailId_def Let_def)
next
  assume a: "getProperty (JObject payload) ''email_id'' = JString subject \<and> subject \<noteq> []
          \<and> (typeof (getProperty (JObject payload) ''iat'') \<noteq> ''number''
               \<or> typeof (getProperty (JObject payload) ''exp'') \<noteq> ''number'')"
  then have "extractEmailId payload = HandlerSuccess subject"
    by (simp add: extractEmailId_def success_def)
  moreover from a have
    "(case (getProperty (JObject payload) ''iat'', getProperty (JObject payload) ''exp'') of
        (JNumber iatValue, JNumber expValue) \<Rightarrow>
          success \<lparr>emailId = subject, issuedAtSeconds = iatValue, expiresAtSeconds = expValue\<rparr>
      | _ \<Rightarrow> failure 400 ''Token missing required timestamps'')
     = HandlerFailure 400 ''Token missing required timestamps''"
    by (auto simp: failure_def split: jsvalue.splits)
  ultimately
  show "resolveEmailId p token secret = HandlerFailure 400 ''Token missing required timestamps''"
    using verified by (simp add: resolveEmailId_def Let_def)
next
  assume a: "getProperty (JObject payload) ''email_id'' = JString subject \<and> subject \<noteq> []
          \<and> getProperty (JObject payload) ''iat'' = JNumber issued
          \<and> getProperty (JObject payload) ''exp'' = JNumber expires"
  then have "extractEmailId payload = HandlerSuccess subject"
    by (simp add: extractEmailId_def success_def)
  with a verified
  show "resolveEmailId p token secret =
      HandlerSuccess \<lparr>emailId = subject, issuedAtSeconds = issued, expiresAtSeconds = expires\<rparr>"
    by (simp add: resolveEmailId_def success_def Let_def)
qed

subsection \<open>The bindings at run time\<close>

lemma validateEnvAtRunTime_typed:
  "validateEnvAtRunTime \<lparr>apiKeyBinding = Some a, jwtSecretBinding = Some s\<rparr>
     = Inr (validateEnv \<lparr>RESEND_API_KEY = a, RESEND_JWT_SECRET = s\<rparr>)"
  by (simp add: validateEnvAtRunTime_def normalizeSecretAtRunTime_def validateEnv_def
      normalizeSecret_def success_def failure_def Let_def)

text \<open>On bindings that are strings, as the interface declares, the two handlers agree.\<close>

lemma handlerAtRunTime_typed:
  "handlerAtRunTime p \<lparr>apiKeyBinding = Some a, jwtSecretBinding = Some s\<rparr> cache request
     = Inr (handler p \<lparr>RESEND_API_KEY = a, RESEND_JWT_SECRET = s\<rparr> cache request)"
  unfolding handlerAtRunTime_def handler_def validateEnvAtRunTime_typed
  by (simp add: Let_def split: option.splits HandlerResult.splits)

lemma validateEnvAtRunTime_blank:
  assumes "(\<exists>a. apiKeyBinding renv = Some a \<and> trim a = [])
      \<or> (\<exists>a s. apiKeyBinding renv = Some a \<and> trim a \<noteq> []
            \<and> jwtSecretBinding renv = Some s \<and> trim s = [])"
  shows "validateEnvAtRunTime renv = Inr (HandlerFailure 500 ''Server misconfigured'')"
  using assms
  by (auto simp: validateEnvAtRunTime_def normalizeSecretAtRunTime_def success_def failure_def
      Let_def)

lemma validateEnvAtRunTime_missing:
  assumes "apiKeyBinding renv = None
      \<or> (\<exists>a. apiKeyBinding renv = Some a \<and> trim a \<noteq> [] \<and> jwtSecretBinding renv = None)"
  shows "validateEnvAtRunTime renv = Inl TypeError"
  using assms
  by (auto simp: validateEnvAtRunTime_def normalizeSecretAtRunTime_def success_def failure_def
      Let_def)

text \<open>The handler looks at the cache under the URL of its request, and nowhere else.\<close>

lemma handler_reads_own_url:
  "other (url request) = cache (url request) \<Longrightarrow>
   handler p env other request = handler p env cache request"
  by (simp add: handler_def cache_match_def createCacheKey_def)

subsection \<open>Claims\<close>

text \<open>
  C1. When every stage up to the fetch has succeeded, the response has status 200 and
  content type \<open>text/html; charset=utf-8\<close>, and its \<open>cache-control\<close> header follows
  \<open>ttl = expiresAtSeconds - floor(now / 1000)\<close>: it is exactly
  \<open>public, max-age=ttl, s-maxage=ttl\<close> when \<open>ttl > 0\<close> and exactly \<open>no-store\<close> when
  \<open>ttl \<le> 0\<close>.
\<close>

theorem success_response_cache_control:
  assumes miss: "cache_match cache (createCacheKey request) = None"
    and env: "validateEnv env = HandlerSuccess creds"
    and tok: "extractTokenFromRequest p request = HandlerSuccess token"
    and ver: "resolveEmailId p token (jwtSecret creds) = HandlerSuccess claims"
    and fet: "fetchEmailHtml p (emailId claims) (apiKey creds) = HandlerSuccess html"
    and ttl: "ttl = expiresAtSeconds claims - \<lfloor>real_of_int (dateNow p) / 1000\<rfloor>"
    and out: "r = response (handler p env cache request)"
  shows "status r = 200
    \<and> body r = html
    \<and> headers_get (headers r) ''content-type'' = Some ''text/html; charset=utf-8''
    \<and> (0 < ttl \<longrightarrow> headers_get (headers r) ''cache-control'' =
          Some (''public, max-age='' @ numberToString ttl @ '', s-maxage='' @ numberToString ttl))
    \<and> (ttl \<le> 0 \<longrightarrow> headers_get (headers r) ''cache-control'' = Some ''no-store'')"
proof -
  from ttl have seconds: "ttl = expiresAtSeconds claims - dateNow p div 1000"
    by (simp only: floor_seconds)
  from out have r: "r = createSuccessResponse html ttl"
    by (simp add: handler_success [OF miss env tok ver fet] seconds)
  show ?thesis
    by (simp add: r createSuccessResponse_status createSuccessResponse_body
        createSuccessResponse_headers headers_get_def)
qed

theorem success_response_cache_control_witness:
  "status (response (handler testPlatform baseEnv Map.empty
      \<lparr>url = ''https://example.com/?token=signed-token''\<rparr>)) = 200
   \<and> headers_get (headers (response (handler testPlatform baseEnv Map.empty
      \<lparr>url = ''https://example.com/?token=signed-token''\<rparr>))) ''cache-control''
      = Some ''public, max-age=120, s-maxage=120''
   \<and> headers_get (headers (response (handler (testPlatform\<lparr>dateNow := 1700000120999\<rparr>) baseEnv
      Map.empty \<lparr>url = ''https://example.com/?token=signed-token''\<rparr>))) ''cache-control''
      = Some ''no-store''"
proof -
  let ?request = "\<lparr>url = ''https://example.com/?token=signed-token''\<rparr>"
  let ?creds = "\<lparr>apiKey = ''test-api-key'', jwtSecret = ''test-secret''\<rparr>"
  let ?claims = "\<lparr>emailId = ''email-123'', issuedAtSeconds = 1700000000,
                  expiresAtSeconds = 1700000120\<rparr>"
  let ?late = "testPlatform\<lparr>dateNow := 1700000120999\<rparr>"
  have miss: "cache_match Map.empty (createCacheKey ?request) = None"
    by (simp add: cache_match_def)
  have env: "validateEnv baseEnv = HandlerSuccess ?creds"
    by (simp add: stage_defs fixture_defs trim_fixtures)
  have tok: "extractTokenFromRequest testPlatform ?request = HandlerSuccess ''signed-token''"
    by (simp add: stage_defs fixture_defs trim_fixtures)
  have tok': "extractTokenFromRequest ?late ?request = HandlerSuccess ''signed-token''"
    by (simp add: stage_defs fixture_defs trim_fixtures)
  have ver: "resolveEmailId testPlatform ''signed-token'' (jwtSecret ?creds) = HandlerSuccess ?claims"
    by (simp add: stage_defs fixture_defs)
  have ver': "resolveEmailId ?late ''signed-token'' (jwtSecret ?creds) = HandlerSuccess ?claims"
    by (simp add: stage_defs fixture_defs)
  have fet: "fetchEmailHtml testPlatform (emailId ?claims) (apiKey ?creds)
      = HandlerSuccess ''<p>email-123</p>''"
    by (simp add: stage_defs fixture_defs)
  have fet': "fetchEmailHtml ?late (emailId ?claims) (apiKey ?creds)
      = HandlerSuccess ''<p>email-123</p>''"
    by (simp add: stage_defs fixture_defs)
  have ttl: "(120::int) = expiresAtSeconds ?claims - \<lfloor>real_of_int (dateNow testPlatform) / 1000\<rfloor>"
    by (simp add: fixture_defs)
  have ttl': "(0::int) = expiresAtSeconds ?claims - \<lfloor>real_of_int (dateNow ?late) / 1000\<rfloor>"
    by (simp add: fixture_defs)
  from success_response_cache_control [OF miss env tok ver fet ttl refl]
       success_response_cache_control [OF miss env tok' ver' fet' ttl' refl]
  show ?thesis by (simp add: numberToString_def)
qed

text \<open>
  C2. A first request that misses the cache and is answered with status 200 and a
  positive remaining lifetime leaves its response in the cache. While that entry is
  live (\<open>cache'\<close> holds it), a second request for the same URL gets the stored response,
  body included, whatever the environment, the verifier and the provider are by then:
  nothing is verified or fetched for it, and the provider has been called once over the
  two requests.
\<close>

theorem second_request_served_from_cache:
  assumes miss: "cache_match cache (createCacheKey request) = None"
    and first: "out1 = handler p1 env1 cache request"
    and ok: "status (response out1) = 200"
    and positive: "0 < ttl"
    and max_age: "headers_get (headers (response out1)) ''cache-control'' =
        Some (''public, max-age='' @ numberToString ttl @ '', s-maxage='' @ numberToString ttl)"
    and live: "cache_match cache' (createCacheKey request) =
        cache_match (afterWrite cache out1) (createCacheKey request)"
    and second: "out2 = handler p2 env2 cache' request"
  shows "body (response out2) = body (response out1)
    \<and> out2 = \<lparr>response = response out1, cachePut = None, verifyCalls = [], fetchCalls = []\<rparr>
    \<and> length (fetchCalls out1) = 1
    \<and> length (fetchCalls out1) + length (fetchCalls out2) = 1"
proof -
  from miss obtain creds token claims html where
    env: "validateEnv env1 = HandlerSuccess creds" and
    tok: "extractTokenFromRequest p1 request = HandlerSuccess token" and
    ver: "resolveEmailId p1 token (jwtSecret creds) = HandlerSuccess claims" and
    fet: "fetchEmailHtml p1 (emailId claims) (apiKey creds) = HandlerSuccess html"
  proof (cases rule: handler_miss_cases [of cache request p1 env1])
    case (failed st message vc fc)
    with ok first show ?thesis by (auto simp: createErrorResponse_fields)
  next
    case (served creds token claims html)
    then show ?thesis by (rule that)
  qed
  let ?ttl = "expiresAtSeconds claims - dateNow p1 div 1000"
  note shape = handler_success [OF miss env tok ver fet]
  have resp: "response out1 = createSuccessResponse html ?ttl"
    by (simp add: first shape)
  have "0 < ?ttl"
  proof (rule ccontr)
    assume "\<not> 0 < ?ttl"
    then have "headers_get (headers (response out1)) ''cache-control'' = Some ''no-store''"
      by (simp add: resp createSuccessResponse_headers headers_get_def)
    with max_age show False by simp
  qed
  then have put: "cachePut out1 = Some (createCacheKey request, response out1)"
    by (simp add: first shape)
  have calls: "fetchCalls out1 = [(emailId claims, apiKey creds)]"
    by (simp add: first shape)
  from put have "cache_match (afterWrite cache out1) (createCacheKey request) = Some (response out1)"
    by (simp add: afterWrite_def cache_put_def cache_match_def)
  with live have "cache_match cache' (createCacheKey request) = Some (response out1)" by simp
  from handler_hit [OF this] second
  have "out2 = \<lparr>response = response out1, cachePut = None, verifyCalls = [], fetchCalls = []\<rparr>"
    by simp
  then show ?thesis by (simp add: calls)
qed

theorem second_request_served_from_cache_witness:
  "body (response (handler (provider None)
        \<lparr>RESEND_API_KEY = '''', RESEND_JWT_SECRET = ''''\<rparr>
        (afterWrite Map.empty
           (handler testPlatform baseEnv Map.empty
              \<lparr>url = ''https://example.com/?token=signed-token''\<rparr>))
        \<lparr>url = ''https://example.com/?token=signed-token''\<rparr>))
     = ''<p>email-123</p>''
   \<and> fetchCalls (handler testPlatform baseEnv Map.empty
        \<lparr>url = ''https://example.com/?token=signed-token''\<rparr>) = [(''email-123'', ''test-api-key'')]
   \<and> fetchCalls (handler (provider None)
        \<lparr>RESEND_API_KEY = '''', RESEND_JWT_SECRET = ''''\<rparr>
        (afterWrite Map.empty
           (handler testPlatform baseEnv Map.empty
              \<lparr>url = ''https://example.com/?token=signed-token''\<rparr>))
        \<lparr>url = ''https://example.com/?token=signed-token''\<rparr>) = []"
proof -
  let ?request = "\<lparr>url = ''https://example.com/?token=signed-token''\<rparr>"
  let ?out1 = "handler testPlatform baseEnv Map.empty ?request"
  have out1: "?out1 =
     \<lparr>response = \<lparr>status = 200,
         headers = [(''content-type'', ''text/html; charset=utf-8''),
                    (''cache-control'', ''public, max-age=120, s-maxage=120'')],
         body = ''<p>email-123</p>''\<rparr>,
      cachePut = Some (?request, \<lparr>status = 200,
         headers = [(''content-type'', ''text/html; charset=utf-8''),
                    (''cache-control'', ''public, max-age=120, s-maxage=120'')],
         body = ''<p>email-123</p>''\<rparr>),
      verifyCalls = [(''signed-token'', ''test-secret'')],
      fetchCalls = [(''email-123'', ''test-api-key'')]\<rparr>"
    by (simp add: handler_def stage_defs fixture_defs trim_fixtures)
  have miss: "cache_match Map.empty (createCacheKey ?request) = None"
    by (simp add: cache_match_def)
  have ok: "status (response ?out1) = 200" by (simp add: out1)
  have positive: "(0::int) < 120" by simp
  have max_age: "headers_get (headers (response ?out1)) ''cache-control'' =
      Some (''public, max-age='' @ numberToString 120 @ '', s-maxage='' @ numberToString 120)"
    by (simp add: out1 headers_get_def numberToString_def)
  from second_request_served_from_cache [OF miss refl ok positive max_age refl refl]
  show ?thesis by (simp add: out1)
qed

text \<open>
  C3. Whatever \<open>jwtVerify\<close> throws (a bad signature, a malformed token, an expired one,
  or anything else), \<open>resolveEmailId\<close> returns the one failure with status 401 and
  message \<open>Invalid or expired token\<close>: the result does not depend on the cause.
\<close>

theorem rejected_token_is_401:
  assumes "jwtVerify p token (textEncoder_encode secret) = Inl thrown"
  shows "resolveEmailId p token secret = HandlerFailure 401 ''Invalid or expired token''"
  using assms by (simp add: resolveEmailId_def failure_def Let_def)

theorem rejected_token_is_401_witness:
  "jwtVerify testPlatform ''tampered-token'' (textEncoder_encode ''test-secret'')
     = Inl JWSSignatureVerificationFailed
   \<and> jwtVerify testPlatform ''not-a-token'' (textEncoder_encode ''test-secret'') = Inl JWSInvalid
   \<and> jwtVerify testPlatform ''expired-token'' (textEncoder_encode ''test-secret'') = Inl JWTExpired
   \<and> resolveEmailId testPlatform ''tampered-token'' ''test-secret''
     = HandlerFailure 401 ''Invalid or expired token''
   \<and> resolveEmailId testPlatform ''not-a-token'' ''test-secret''
     = HandlerFailure 401 ''Invalid or expired token''
   \<and> resolveEmailId testPlatform ''expired-token'' ''test-secret''
     = HandlerFailure 401 ''Invalid or expired token''"
proof -
  have bad_signature: "jwtVerify testPlatform ''tampered-token'' (textEncoder_encode ''test-secret'')
      = Inl JWSSignatureVerificationFailed"
    by (simp add: fixture_defs textEncoder_encode_def)
  have malformed: "jwtVerify testPlatform ''not-a-token'' (textEncoder_encode ''test-secret'')
      = Inl JWSInvalid"
    by (simp add: fixture_defs textEncoder_encode_def)
  have expired: "jwtVerify testPlatform ''expired-token'' (textEncoder_encode ''test-secret'')
      = Inl JWTExpired"
    by (simp add: fixture_defs textEncoder_encode_def)
  from rejected_token_is_401 [OF bad_signature] rejected_token_is_401 [OF malformed]
    rejected_token_is_401 [OF expired] bad_signature malformed expired
  show ?thesis by simp
qed

text \<open>
  C4. A run of the handler schedules a cache write exactly when the request missed the
  cache, every stage up to the fetch succeeded, and the remaining lifetime
  \<open>expiresAtSeconds - floor(now / 1000)\<close> is positive. What it writes is the response it
  returns, under the key of the request, with status 200 and a \<open>cache-control\<close> other
  than \<open>no-store\<close>; a response with another status, or with \<open>no-store\<close>, is never
  written.
\<close>

theorem cache_written_iff_fetched_with_positive_ttl:
  "(cachePut (handler p env cache request) \<noteq> None \<longleftrightarrow>
      (\<exists>creds token claims html.
         cache_match cache (createCacheKey request) = None
         \<and> validateEnv env = HandlerSuccess creds
         \<and> extractTokenFromRequest p request = HandlerSuccess token
         \<and> resolveEmailId p token (jwtSecret creds) = HandlerSuccess claims
         \<and> fetchEmailHtml p (emailId claims) (apiKey creds) = HandlerSuccess html
         \<and> 0 < expiresAtSeconds claims - \<lfloor>real_of_int (dateNow p) / 1000\<rfloor>))
   \<and> (cachePut (handler p env cache request) = Some (cacheKey, stored) \<longrightarrow>
         cacheKey = createCacheKey request
         \<and> stored = response (handler p env cache request)
         \<and> status stored = 200
         \<and> headers_get (headers stored) ''cache-control'' \<noteq> Some ''no-store'')
   \<and> (status (response (handler p env cache request)) \<noteq> 200 \<longrightarrow>
         cachePut (handler p env cache request) = None)
   \<and> (headers_get (headers (response (handler p env cache request))) ''cache-control''
         = Some ''no-store'' \<longrightarrow>
         cachePut (handler p env cache request) = None)"
proof (cases "cache_match cache (createCacheKey request)")
  case (Some cached)
  then show ?thesis by (simp add: handler_hit)
next
  case None
  then show ?thesis
  proof (cases rule: handler_miss_cases [of cache request p env])
    case (failed st message vc fc)
    have "\<not> (\<exists>creds token claims html.
         validateEnv env = HandlerSuccess creds
         \<and> extractTokenFromRequest p request = HandlerSuccess token
         \<and> resolveEmailId p token (jwtSecret creds) = HandlerSuccess claims
         \<and> fetchEmailHtml p (emailId claims) (apiKey creds) = HandlerSuccess html)"
    proof
      assume "\<exists>creds token claims html.
         validateEnv env = HandlerSuccess creds
         \<and> extractTokenFromRequest p request = HandlerSuccess token
         \<and> resolveEmailId p token (jwtSecret creds) = HandlerSuccess claims
         \<and> fetchEmailHtml p (emailId claims) (apiKey creds) = HandlerSuccess html"
      then obtain creds token claims html where
        "validateEnv env = HandlerSuccess creds"
        "extractTokenFromRequest p request = HandlerSuccess token"
        "resolveEmailId p token (jwtSecret creds) = HandlerSuccess claims"
        "fetchEmailHtml p (emailId claims) (apiKey creds) = HandlerSuccess html"
        by blast
      from handler_success [OF None this] failed
      show False by (auto simp: createSuccessResponse_def createErrorResponse_def Let_def)
    qed
    with failed show ?thesis by auto
  next
    case (served creds token claims html)
    let ?ttl = "expiresAtSeconds claims - dateNow p div 1000"
    note shape = handler_success [OF None served]
    have "(\<exists>creds' token' claims' html'.
         cache_match cache (createCacheKey request) = None
         \<and> validateEnv env = HandlerSuccess creds'
         \<and> extractTokenFromRequest p request = HandlerSuccess token'
         \<and> resolveEmailId p token' (jwtSecret creds') = HandlerSuccess claims'
         \<and> fetchEmailHtml p (emailId claims') (apiKey creds') = HandlerSuccess html'
         \<and> 0 < expiresAtSeconds claims' - \<lfloor>real_of_int (dateNow p) / 1000\<rfloor>)
       \<longleftrightarrow> 0 < ?ttl"
      using None served by (auto simp: floor_seconds)
    then show ?thesis
      by (auto simp: shape createSuccessResponse_status createSuccessResponse_headers
          headers_get_def)
  qed
qed

theorem cache_written_iff_fetched_with_positive_ttl_witness:
  "cachePut (handler testPlatform baseEnv Map.empty
      \<lparr>url = ''https://example.com/?token=signed-token''\<rparr>)
     = Some (\<lparr>url = ''https://example.com/?token=signed-token''\<rparr>,
         \<lparr>status = 200,
          headers = [(''content-type'', ''text/html; charset=utf-8''),
                     (''cache-control'', ''public, max-age=120, s-maxage=120'')],
          body = ''<p>email-123</p>''\<rparr>)
   \<and> status (response (handler testPlatform baseEnv Map.empty
      \<lparr>url = ''https://example.com/?token=expired-token''\<rparr>)) = 401
   \<and> cachePut (handler testPlatform baseEnv Map.empty
      \<lparr>url = ''https://example.com/?token=expired-token''\<rparr>) = None
   \<and> headers_get (headers (response (handler (testPlatform\<lparr>dateNow := 1700000120000\<rparr>) baseEnv
      Map.empty \<lparr>url = ''https://example.com/?token=signed-token''\<rparr>))) ''cache-control''
     = Some ''no-store''
   \<and> cachePut (handler (testPlatform\<lparr>dateNow := 1700000120000\<rparr>) baseEnv Map.empty
      \<lparr>url = ''https://example.com/?token=signed-token''\<rparr>) = None"
proof -
  let ?request = "\<lparr>url = ''https://example.com/?token=signed-token''\<rparr>"
  let ?expired = "\<lparr>url = ''https://example.com/?token=expired-token''\<rparr>"
  let ?late = "testPlatform\<lparr>dateNow := 1700000120000\<rparr>"
  let ?stored = "\<lparr>status = 200,
      headers = [(''content-type'', ''text/html; charset=utf-8''),
                 (''cache-control'', ''public, max-age=120, s-maxage=120'')],
      body = ''<p>email-123</p>''\<rparr>"
  have put: "cachePut (handler testPlatform baseEnv Map.empty ?request) = Some (?request, ?stored)"
    by (simp add: handler_def stage_defs fixture_defs trim_fixtures)
  have rejected: "status (response (handler testPlatform baseEnv Map.empty ?expired)) = 401"
    by (simp add: handler_def stage_defs fixture_defs trim_fixtures)
  have stale: "headers_get (headers (response (handler ?late baseEnv Map.empty ?request)))
      ''cache-control'' = Some ''no-store''"
    by (simp add: handler_def stage_defs fixture_defs trim_fixtures)
  from cache_written_iff_fetched_with_positive_ttl
      [of testPlatform baseEnv Map.empty ?expired ?request ?stored] rejected
  have "cachePut (handler testPlatform baseEnv Map.empty ?expired) = None" by simp
  moreover
  from cache_written_iff_fetched_with_positive_ttl
      [of ?late baseEnv Map.empty ?request ?request ?stored] stale
  have "cachePut (handler ?late baseEnv Map.empty ?request) = None" by blast
  ultimately show ?thesis using put rejected stale by simp
qed

text \<open>
  C5. \<open>fetchEmailHtml\<close> always returns a result, whatever the provider does. In the order
  in which the source tests them: a client that throws gives 502 with the generic
  message; a reported error whose \<open>message\<close> is a string gives 502 with that message; a
  reported error without a string message gives 502 with the generic message; no error
  and no data gives 404 \<open>Email not found\<close>; data whose \<open>html\<close> is missing, not a string
  or empty gives 502; data with a non-empty \<open>html\<close> string gives that string. Nothing
  else comes out.
\<close>

theorem fetchEmailHtml_outcomes:
  "(resendEmailsGet p key emailIdValue = None \<longrightarrow>
      fetchEmailHtml p emailIdValue key = HandlerFailure 502 ''Unable to fetch email'')
   \<and> (resendEmailsGet p key emailIdValue = Some r
        \<and> error r \<noteq> JNull \<and> error r \<noteq> JUndefined
        \<and> isRecord (error r) \<and> getProperty (error r) ''message'' = JString message \<longrightarrow>
      fetchEmailHtml p emailIdValue key = HandlerFailure 502 message)
   \<and> (resendEmailsGet p key emailIdValue = Some r
        \<and> error r \<noteq> JNull \<and> error r \<noteq> JUndefined
        \<and> \<not> (isRecord (error r) \<and> typeof (getProperty (error r) ''message'') = ''string'') \<longrightarrow>
      fetchEmailHtml p emailIdValue key = HandlerFailure 502 ''Unable to fetch email'')
   \<and> (resendEmailsGet p key emailIdValue = Some r
        \<and> (error r = JNull \<or> error r = JUndefined)
        \<and> (data r = JNull \<or> data r = JUndefined) \<longrightarrow>
      fetchEmailHtml p emailIdValue key = HandlerFailure 404 ''Email not found'')
   \<and> (resendEmailsGet p key emailIdValue = Some r
        \<and> (error r = JNull \<or> error r = JUndefined)
        \<and> data r \<noteq> JNull \<and> data r \<noteq> JUndefined
        \<and> (typeof (getProperty (data r) ''html'') \<noteq> ''string''
             \<or> getProperty (data r) ''html'' = JString []) \<longrightarrow>
      fetchEmailHtml p emailIdValue key = HandlerFailure 502 ''Email body is unavailable'')
   \<and> (resendEmailsGet p key emailIdValue = Some r
        \<and> (error r = JNull \<or> error r = JUndefined)
        \<and> data r \<noteq> JNull \<and> data r \<noteq> JUndefined
        \<and> getProperty (data r) ''html'' = JString html \<and> html \<noteq> [] \<longrightarrow>
      fetchEmailHtml p emailIdValue key = HandlerSuccess html)
   \<and> ((\<exists>detail. fetchEmailHtml p emailIdValue key = HandlerFailure 502 detail)
       \<or> fetchEmailHtml p emailIdValue key = HandlerFailure 404 ''Email not found''
       \<or> (\<exists>content. content \<noteq> [] \<and> fetchEmailHtml p emailIdValue key = HandlerSuccess content))"
proof (intro conjI impI)
  assume "resendEmailsGet p key emailIdValue = None"
  then show "fetchEmailHtml p emailIdValue key = HandlerFailure 502 ''Unable to fetch email''"
    by (simp add: fetchEmailHtml_def failure_def)
next
  assume "resendEmailsGet p key emailIdValue = Some r
        \<and> error r \<noteq> JNull \<and> error r \<noteq> JUndefined
        \<and> isRecord (error r) \<and> getProperty (error r) ''message'' = JString message"
  then show "fetchEmailHtml p emailIdValue key = HandlerFailure 502 message"
    by (simp add: fetchEmailHtml_def failure_def isResendClientError_def)
next
  assume "resendEmailsGet p key emailIdValue = Some r
        \<and> error r \<noteq> JNull \<and> error r \<noteq> JUndefined
        \<and> \<not> (isRecord (error r) \<and> typeof (getProperty (error r) ''message'') = ''string'')"
  then show "fetchEmailHtml p emailIdValue key = HandlerFailure 502 ''Unable to fetch email''"
    by (auto simp: fetchEmailHtml_def failure_def isResendClientError_def)
next
  assume "resendEmailsGet p key emailIdValue = Some r
        \<and> (error r = JNull \<or> error r = JUndefined)
        \<and> (data r = JNull \<or> data r = JUndefined)"
  then show "fetchEmailHtml p emailIdValue key = HandlerFailure 404 ''Email not found''"
    by (auto simp: fetchEmailHtml_def failure_def)
next
  assume "resendEmailsGet p key emailIdValue = Some r
        \<and> (error r = JNull \<or> error r = JUndefined)
        \<and> data r \<noteq> JNull \<and> data r \<noteq> JUndefined
        \<and> (typeof (getProperty (data r) ''html'') \<noteq> ''string''
             \<or> getProperty (data r) ''html'' = JString [])"
  then show "fetchEmailHtml p emailIdValue key = HandlerFailure 502 ''Email body is unavailable''"
    by (auto simp: fetchEmailHtml_def failure_def split: jsvalue.splits)
next
  assume "resendEmailsGet p key emailIdValue = Some r
        \<and> (error r = JNull \<or> error r = JUndefined)
        \<and> data r \<noteq> JNull \<and> data r \<noteq> JUndefined
        \<and> getProperty (data r) ''html'' = JString html \<and> html \<noteq> []"
  then show "fetchEmailHtml p emailIdValue key = HandlerSuccess html"
    by (auto simp: fetchEmailHtml_def failure_def success_def)
next
  show "(\<exists>detail. fetchEmailHtml p emailIdValue key = HandlerFailure 502 detail)
       \<or> fetchEmailHtml p emailIdValue key = HandlerFailure 404 ''Email not found''
       \<or> (\<exists>content. content \<noteq> [] \<and> fetchEmailHtml p emailIdValue key = HandlerSuccess content)"
    by (auto simp: fetchEmailHtml_def failure_def success_def
        split: option.splits jsvalue.splits)
qed

theorem fetchEmailHtml_outcomes_witness:
  "fetchEmailHtml (provider None) ''email-123'' ''test-api-key''
     = HandlerFailure 502 ''Unable to fetch email''
   \<and> fetchEmailHtml
       (provider (Some \<lparr>data = JNull, error = JObject [(''message'', JString ''Rate limited'')]\<rparr>))
       ''email-123'' ''test-api-key''
     = HandlerFailure 502 ''Rate limited''
   \<and> fetchEmailHtml (provider (Some \<lparr>data = JNull, error = JString ''Rate limited''\<rparr>))
       ''email-123'' ''test-api-key''
     = HandlerFailure 502 ''Unable to fetch email''
   \<and> fetchEmailHtml (provider (Some \<lparr>data = JNull, error = JNull\<rparr>)) ''email-123'' ''test-api-key''
     = HandlerFailure 404 ''Email not found''
   \<and> fetchEmailHtml (provider (Some \<lparr>data = JObject [(''html'', JNull)], error = JNull\<rparr>))
       ''email-123'' ''test-api-key''
     = HandlerFailure 502 ''Email body is unavailable''
   \<and> fetchEmailHtml testPlatform ''email-123'' ''test-api-key''
     = HandlerSuccess ''<p>email-123</p>''"
proof -
  note [simp] = provider_def testPlatform_def isRecord_def
  from
    fetchEmailHtml_outcomes [of "provider None" "''test-api-key''" "''email-123''"]
    fetchEmailHtml_outcomes [of
      "provider (Some \<lparr>data = JNull, error = JObject [(''message'', JString ''Rate limited'')]\<rparr>)"
      "''test-api-key''" "''email-123''"
      "\<lparr>data = JNull, error = JObject [(''message'', JString ''Rate limited'')]\<rparr>"
      "''Rate limited''"]
    fetchEmailHtml_outcomes [of
      "provider (Some \<lparr>data = JNull, error = JString ''Rate limited''\<rparr>)"
      "''test-api-key''" "''email-123''" "\<lparr>data = JNull, error = JString ''Rate limited''\<rparr>"]
    fetchEmailHtml_outcomes [of
      "provider (Some \<lparr>data = JNull, error = JNull\<rparr>)"
      "''test-api-key''" "''email-123''" "\<lparr>data = JNull, error = JNull\<rparr>"]
    fetchEmailHtml_outcomes [of
      "provider (Some \<lparr>data = JObject [(''html'', JNull)], error = JNull\<rparr>)"
      "''test-api-key''" "''email-123''" "\<lparr>data = JObject [(''html'', JNull)], error = JNull\<rparr>"]
    fetchEmailHtml_outcomes [of testPlatform "''test-api-key''" "''email-123''"
      "\<lparr>data = JObject [(''html'', JString ''<p>email-123</p>'')], error = JNull\<rparr>"
      "''''" "''<p>email-123</p>''"]
  show ?thesis by simp
qed

text \<open>
  C6, as stated, does not hold for a timestamp that is present but not a number. The
  token below is signed with the configured secret and has not expired, its \<open>email_id\<close>
  is in order and its \<open>iat\<close> is text: the library rejects it, and the \<open>catch\<close> of
  \<open>resolveEmailId\<close> answers 401, not 400 \<open>Token missing required timestamps\<close>.
\<close>

theorem text_timestamp_counterexample:
  "testDecode ''text-iat-token''
     = Some \<lparr>tokenKey = textEncoder_encode ''test-secret'',
         tokenClaims = [(''email_id'', JString ''email-123''), (''iat'', JString ''2023-11-14''),
                        (''exp'', JNumber 1700000120)]\<rparr>
   \<and> (1700000000 :: int) < 1700000120
   \<and> typeof (JString ''2023-11-14'') \<noteq> ''number''
   \<and> resolveEmailId josePlatform ''text-iat-token'' ''test-secret''
       = HandlerFailure 401 ''Invalid or expired token''
   \<and> resolveEmailId josePlatform ''text-iat-token'' ''test-secret''
       \<noteq> HandlerFailure 400 ''Token missing required timestamps''"
  by (simp add: stage_defs fixture_defs joseJwtVerify_def joseClaimsSet_def)

text \<open>
  C6, amended. For a token signed with the configured secret whose claims the library
  accepts (it has not expired, and each of its timestamps is absent or a number),
  \<open>resolveEmailId\<close> makes two checks, each with a failure of its own. First the subject:
  when \<open>email_id\<close> is missing, not a string or the empty string, the result is
  400 \<open>Token payload missing email_id\<close>. Then, for a payload that has passed the first
  check, the timestamps: when \<open>iat\<close> or \<open>exp\<close> is absent, the result is
  400 \<open>Token missing required timestamps\<close>, and that failure has no other cause. When both
  checks pass, the result is the success that carries \<open>email_id\<close>, \<open>iat\<close> and \<open>exp\<close>. A
  token with an \<open>iat\<close> or \<open>exp\<close> that is present but not a number never reaches the two
  checks: the result is 401 \<open>Invalid or expired token\<close>.
\<close>

theorem accepted_token_payload_checks:
  assumes verifier: "jwtVerify p = joseJwtVerify decode nowSeconds"
    and signed: "decode token
        = Some \<lparr>tokenKey = textEncoder_encode secret, tokenClaims = claimsSet\<rparr>"
  shows "(joseClaimsSet nowSeconds claimsSet = Inr claimsSet
          \<and> (typeof (getProperty (JObject claimsSet) ''email_id'') \<noteq> ''string''
               \<or> getProperty (JObject claimsSet) ''email_id'' = JString []) \<longrightarrow>
          resolveEmailId p token secret = HandlerFailure 400 ''Token payload missing email_id'')
    \<and> (joseClaimsSet nowSeconds claimsSet = Inr claimsSet
          \<and> getProperty (JObject claimsSet) ''email_id'' = JString subject \<and> subject \<noteq> []
          \<and> (getProperty (JObject claimsSet) ''iat'' = JUndefined
               \<or> getProperty (JObject claimsSet) ''exp'' = JUndefined) \<longrightarrow>
          resolveEmailId p token secret = HandlerFailure 400 ''Token missing required timestamps'')
    \<and> (joseClaimsSet nowSeconds claimsSet = Inr claimsSet
          \<and> getProperty (JObject claimsSet) ''email_id'' = JString subject \<and> subject \<noteq> []
          \<and> getProperty (JObject claimsSet) ''iat'' = JNumber issued
          \<and> getProperty (JObject claimsSet) ''exp'' = JNumber expires \<longrightarrow>
          resolveEmailId p token secret =
            HandlerSuccess \<lparr>emailId = subject, issuedAtSeconds = issued,
                            expiresAtSeconds = expires\<rparr>)
    \<and> ((getProperty (JObject claimsSet) ''iat'' \<noteq> JUndefined
            \<and> typeof (getProperty (JObject claimsSet) ''iat'') \<noteq> ''number'')
          \<or> (getProperty (JObject claimsSet) ''exp'' \<noteq> JUndefined
            \<and> typeof (getProperty (JObject claimsSet) ''exp'') \<noteq> ''number'') \<longrightarrow>
          resolveEmailId p token secret = HandlerFailure 401 ''Invalid or expired token'')
    \<and> (joseClaimsSet nowSeconds claimsSet = Inr claimsSet
          \<and> getProperty (JObject claimsSet) ''email_id'' = JString subject \<and> subject \<noteq> []
          \<and> resolveEmailId p token secret = HandlerFailure 400 ''Token missing required timestamps''
          \<longrightarrow> getProperty (JObject claimsSet) ''iat'' = JUndefined
               \<or> getProperty (JObject claimsSet) ''exp'' = JUndefined)"
proof -
  have run: "jwtVerify p token (textEncoder_encode secret) = joseClaimsSet nowSeconds claimsSet"
    using signed by (simp add: verifier joseJwtVerify_def)
  have accepted: "jwtVerify p token (textEncoder_encode secret) = Inr claimsSet"
    if "joseClaimsSet nowSeconds claimsSet = Inr claimsSet"
    using that run by simp
  have first: "resolveEmailId p token secret = HandlerFailure 400 ''Token payload missing email_id''"
    if "joseClaimsSet nowSeconds claimsSet = Inr claimsSet
          \<and> (typeof (getProperty (JObject claimsSet) ''email_id'') \<noteq> ''string''
               \<or> getProperty (JObject claimsSet) ''email_id'' = JString [])"
    using resolveEmailId_on_payload [OF accepted] that by blast
  have second: "resolveEmailId p token secret
      = HandlerFailure 400 ''Token missing required timestamps''"
    if a: "joseClaimsSet nowSeconds claimsSet = Inr claimsSet
          \<and> getProperty (JObject claimsSet) ''email_id'' = JString subject \<and> subject \<noteq> []
          \<and> (getProperty (JObject claimsSet) ''iat'' = JUndefined
               \<or> getProperty (JObject claimsSet) ''exp'' = JUndefined)"
  proof -
    from a have "typeof (getProperty (JObject claimsSet) ''iat'') \<noteq> ''number''
        \<or> typeof (getProperty (JObject claimsSet) ''exp'') \<noteq> ''number''"
      by auto
    with resolveEmailId_on_payload [OF accepted, of subject] a show ?thesis by blast
  qed
  have third: "resolveEmailId p token secret =
      HandlerSuccess \<lparr>emailId = subject, issuedAtSeconds = issued, expiresAtSeconds = expires\<rparr>"
    if "joseClaimsSet nowSeconds claimsSet = Inr claimsSet
          \<and> getProperty (JObject claimsSet) ''email_id'' = JString subject \<and> subject \<noteq> []
          \<and> getProperty (JObject claimsSet) ''iat'' = JNumber issued
          \<and> getProperty (JObject claimsSet) ''exp'' = JNumber expires"
    using resolveEmailId_on_payload [OF accepted, of subject issued expires] that by blast
  have fourth: "resolveEmailId p token secret = HandlerFailure 401 ''Invalid or expired token''"
    if "(getProperty (JObject claimsSet) ''iat'' \<noteq> JUndefined
            \<and> typeof (getProperty (JObject claimsSet) ''iat'') \<noteq> ''number'')
          \<or> (getProperty (JObject claimsSet) ''exp'' \<noteq> JUndefined
            \<and> typeof (getProperty (JObject claimsSet) ''exp'') \<noteq> ''number'')"
  proof -
    from joseClaimsSet_text_timestamp [OF that] obtain thrown where
      "joseClaimsSet nowSeconds claimsSet = Inl thrown" by blast
    with run show ?thesis by (simp add: resolveEmailId_def failure_def Let_def)
  qed
  have fifth: "getProperty (JObject claimsSet) ''iat'' = JUndefined
               \<or> getProperty (JObject claimsSet) ''exp'' = JUndefined"
    if a: "joseClaimsSet nowSeconds claimsSet = Inr claimsSet
          \<and> getProperty (JObject claimsSet) ''email_id'' = JString subject \<and> subject \<noteq> []
          \<and> resolveEmailId p token secret = HandlerFailure 400 ''Token missing required timestamps''"
  proof (rule ccontr)
    assume present: "\<not> (getProperty (JObject claimsSet) ''iat'' = JUndefined
               \<or> getProperty (JObject claimsSet) ''exp'' = JUndefined)"
    from a joseClaimsSet_accepted(2,3) [of nowSeconds claimsSet claimsSet] present
    obtain i e where "getProperty (JObject claimsSet) ''iat'' = JNumber i"
      "getProperty (JObject claimsSet) ''exp'' = JNumber e"
      by (cases "getProperty (JObject claimsSet) ''iat''";
          cases "getProperty (JObject claimsSet) ''exp''") auto
    with resolveEmailId_on_payload [OF accepted, of subject i e] a show False by auto
  qed
  from first second third fourth fifth show ?thesis by blast
qed

theorem accepted_token_payload_checks_witness:
  "resolveEmailId josePlatform ''no-subject-token'' ''test-secret''
     = HandlerFailure 400 ''Token payload missing email_id''
   \<and> resolveEmailId josePlatform ''no-timestamps-token'' ''test-secret''
     = HandlerFailure 400 ''Token missing required timestamps''
   \<and> resolveEmailId josePlatform ''signed-token'' ''test-secret''
     = HandlerSuccess \<lparr>emailId = ''email-123'', issuedAtSeconds = 1700000000,
         expiresAtSeconds = 1700000120\<rparr>
   \<and> resolveEmailId josePlatform ''text-iat-token'' ''test-secret''
     = HandlerFailure 401 ''Invalid or expired token''"
proof -
  have verifier: "jwtVerify josePlatform = joseJwtVerify testDecode 1700000000"
    by (simp add: josePlatform_def)
  have no_subject: "testDecode ''no-subject-token''
      = Some \<lparr>tokenKey = textEncoder_encode ''test-secret'',
          tokenClaims = [(''iat'', JNumber 1700000000), (''exp'', JNumber 1700000120)]\<rparr>"
    by (simp add: testDecode_def textEncoder_encode_def)
  have no_timestamps: "testDecode ''no-timestamps-token''
      = Some \<lparr>tokenKey = textEncoder_encode ''test-secret'',
          tokenClaims = [(''email_id'', JString ''email-123'')]\<rparr>"
    by (simp add: testDecode_def textEncoder_encode_def)
  have complete: "testDecode ''signed-token''
      = Some \<lparr>tokenKey = textEncoder_encode ''test-secret'', tokenClaims = tokenPayload\<rparr>"
    by (simp add: testDecode_def textEncoder_encode_def)
  have text_iat: "testDecode ''text-iat-token''
      = Some \<lparr>tokenKey = textEncoder_encode ''test-secret'',
          tokenClaims = [(''email_id'', JString ''email-123''), (''iat'', JString ''2023-11-14''),
                         (''exp'', JNumber 1700000120)]\<rparr>"
    by (simp add: testDecode_def textEncoder_encode_def)
  from accepted_token_payload_checks [OF verifier no_subject, of "''email-123''" 0 0]
    accepted_token_payload_checks [OF verifier no_timestamps, of "''email-123''" 0 0]
    accepted_token_payload_checks [OF verifier complete, of "''email-123''" 1700000000 1700000120]
    accepted_token_payload_checks [OF verifier text_iat, of "''email-123''" 0 0]
  show ?thesis by (simp add: tokenPayload_def joseClaimsSet_def)
qed

text \<open>
  C7, as stated, does not hold for a credential that is missing: with the API key unset
  the route handler throws at \<open>value.trim()\<close> and returns no response of its own, the
  client gets 500 \<open>Internal Server Error\<close> from the framework, and that differs from the
  answer to a blank credential.
\<close>

theorem missing_credential_counterexample:
  "cache_match Map.empty (createCacheKey \<lparr>url = ''https://example.com/?token=signed-token''\<rparr>)
     = None
   \<and> handlerAtRunTime testPlatform
        \<lparr>apiKeyBinding = None, jwtSecretBinding = Some ''test-secret''\<rparr> Map.empty
        \<lparr>url = ''https://example.com/?token=signed-token''\<rparr> = Inl TypeError
   \<and> status (response (appFetch testPlatform
        \<lparr>apiKeyBinding = None, jwtSecretBinding = Some ''test-secret''\<rparr> Map.empty
        \<lparr>url = ''https://example.com/?token=signed-token''\<rparr>)) = 500
   \<and> body (response (appFetch testPlatform
        \<lparr>apiKeyBinding = None, jwtSecretBinding = Some ''test-secret''\<rparr> Map.empty
        \<lparr>url = ''https://example.com/?token=signed-token''\<rparr>)) = ''Internal Server Error''
   \<and> body (response (appFetch testPlatform
        \<lparr>apiKeyBinding = None, jwtSecretBinding = Some ''test-secret''\<rparr> Map.empty
        \<lparr>url = ''https://example.com/?token=signed-token''\<rparr>)) \<noteq> ''Server misconfigured''
   \<and> body (response (appFetch testPlatform
        \<lparr>apiKeyBinding = Some ''test-api-key'', jwtSecretBinding = Some ''  ''\<rparr> Map.empty
        \<lparr>url = ''https://example.com/?token=signed-token''\<rparr>)) = ''Server misconfigured''"
  by (simp add: appFetch_def handlerAtRunTime_def validateEnvAtRunTime_def
      normalizeSecretAtRunTime_def internalServerError_def stage_defs trim_fixtures)

text \<open>
  C7, amended. On a cache miss, when the API key is a string that is blank after trimming
  (the empty string included), or the API key is a non-blank string and the signing
  secret is a string that is blank after trimming, the answer is status 500 with body
  \<open>Server misconfigured\<close>, and the whole outcome is the same for any two such environments,
  whichever credential is the blank one. When instead the API key is unset, or the API key
  is a non-blank string and the signing secret is unset, the route handler throws: the
  client gets 500 \<open>Internal Server Error\<close>, which is not the outcome of a blank credential.
\<close>

theorem blank_credential_response:
  assumes miss: "cache_match cache (createCacheKey request) = None"
    and blank: "(\<exists>a. apiKeyBinding renv = Some a \<and> trim a = [])
      \<or> (\<exists>a s. apiKeyBinding renv = Some a \<and> trim a \<noteq> []
            \<and> jwtSecretBinding renv = Some s \<and> trim s = [])"
    and blank': "(\<exists>a. apiKeyBinding renv' = Some a \<and> trim a = [])
      \<or> (\<exists>a s. apiKeyBinding renv' = Some a \<and> trim a \<noteq> []
            \<and> jwtSecretBinding renv' = Some s \<and> trim s = [])"
  shows "handlerAtRunTime p renv cache request =
      Inr \<lparr>response = createErrorResponse ''Server misconfigured'' 500, cachePut = None,
           verifyCalls = [], fetchCalls = []\<rparr>
    \<and> status (response (appFetch p renv cache request)) = 500
    \<and> body (response (appFetch p renv cache request)) = ''Server misconfigured''
    \<and> appFetch p renv cache request = appFetch p renv' cache request
    \<and> (apiKeyBinding unset = None
         \<or> (\<exists>a. apiKeyBinding unset = Some a \<and> trim a \<noteq> [] \<and> jwtSecretBinding unset = None)
        \<longrightarrow> handlerAtRunTime p unset cache request = Inl TypeError
          \<and> status (response (appFetch p unset cache request)) = 500
          \<and> body (response (appFetch p unset cache request)) = ''Internal Server Error''
          \<and> appFetch p unset cache request \<noteq> appFetch p renv cache request)"
proof -
  have run: "handlerAtRunTime p e cache request =
      Inr \<lparr>response = createErrorResponse ''Server misconfigured'' 500, cachePut = None,
           verifyCalls = [], fetchCalls = []\<rparr>"
    if "(\<exists>a. apiKeyBinding e = Some a \<and> trim a = [])
      \<or> (\<exists>a s. apiKeyBinding e = Some a \<and> trim a \<noteq> []
            \<and> jwtSecretBinding e = Some s \<and> trim s = [])" for e
    using miss validateEnvAtRunTime_blank [OF that] by (simp add: handlerAtRunTime_def Let_def)
  have thrown: "handlerAtRunTime p unset cache request = Inl TypeError"
    if "apiKeyBinding unset = None
         \<or> (\<exists>a. apiKeyBinding unset = Some a \<and> trim a \<noteq> [] \<and> jwtSecretBinding unset = None)"
    using miss validateEnvAtRunTime_missing [OF that] by (simp add: handlerAtRunTime_def Let_def)
  show ?thesis
    using run [OF blank] run [OF blank'] thrown
    by (auto simp: appFetch_def createErrorResponse_def internalServerError_def)
qed

theorem blank_credential_response_witness:
  "body (response (appFetch testPlatform
      \<lparr>apiKeyBinding = Some '''', jwtSecretBinding = None\<rparr> Map.empty
      \<lparr>url = ''https://example.com/?token=signed-token''\<rparr>)) = ''Server misconfigured''
   \<and> appFetch testPlatform \<lparr>apiKeyBinding = Some '''', jwtSecretBinding = None\<rparr> Map.empty
        \<lparr>url = ''https://example.com/?token=signed-token''\<rparr>
     = appFetch testPlatform
        \<lparr>apiKeyBinding = Some ''test-api-key'',
         jwtSecretBinding = Some [CHR 0x20, CHR 0x09, CHR 0x0A]\<rparr> Map.empty
        \<lparr>url = ''https://example.com/?token=signed-token''\<rparr>
   \<and> body (response (appFetch testPlatform
      \<lparr>apiKeyBinding = Some ''test-api-key'', jwtSecretBinding = None\<rparr> Map.empty
      \<lparr>url = ''https://example.com/?token=signed-token''\<rparr>)) = ''Internal Server Error''"
proof -
  let ?request = "\<lparr>url = ''https://example.com/?token=signed-token''\<rparr>"
  have miss: "cache_match Map.empty (createCacheKey ?request) = None"
    by (simp add: cache_match_def)
  have blank: "(\<exists>a. apiKeyBinding \<lparr>apiKeyBinding = Some '''', jwtSecretBinding = None\<rparr> = Some a
        \<and> trim a = [])
      \<or> (\<exists>a s. apiKeyBinding \<lparr>apiKeyBinding = Some '''', jwtSecretBinding = None\<rparr> = Some a
        \<and> trim a \<noteq> []
        \<and> jwtSecretBinding \<lparr>apiKeyBinding = Some '''', jwtSecretBinding = None\<rparr> = Some s
        \<and> trim s = [])"
    by (simp add: trim_fixtures)
  have blank': "(\<exists>a. apiKeyBinding \<lparr>apiKeyBinding = Some ''test-api-key'',
          jwtSecretBinding = Some [CHR 0x20, CHR 0x09, CHR 0x0A]\<rparr> = Some a \<and> trim a = [])
      \<or> (\<exists>a s. apiKeyBinding \<lparr>apiKeyBinding = Some ''test-api-key'',
          jwtSecretBinding = Some [CHR 0x20, CHR 0x09, CHR 0x0A]\<rparr> = Some a \<and> trim a \<noteq> []
        \<and> jwtSecretBinding \<lparr>apiKeyBinding = Some ''test-api-key'',
          jwtSecretBinding = Some [CHR 0x20, CHR 0x09, CHR 0x0A]\<rparr> = Some s \<and> trim s = [])"
    by (simp add: trim_fixtures)
  let ?unset = "\<lparr>apiKeyBinding = Some ''test-api-key'', jwtSecretBinding = None\<rparr>"
  have missing: "apiKeyBinding ?unset = None
      \<or> (\<exists>a. apiKeyBinding ?unset = Some a \<and> trim a \<noteq> [] \<and> jwtSecretBinding ?unset = None)"
    by (simp add: trim_fixtures)
  from blank_credential_response [OF miss blank blank', of testPlatform ?unset] missing
  show ?thesis by blast
qed

text \<open>
  C8, as stated for all requests, does not hold: the environment is validated before
  the token is read, so with a blank API key a request without a token is answered with
  500 \<open>Server misconfigured\<close>, not with 400 \<open>Token not provided\<close>.
\<close>

theorem missing_token_counterexample:
  "searchParamsGet testPlatform (url \<lparr>url = ''https://example.com/''\<rparr>) ''token'' = None
   \<and> status (response (handler testPlatform (baseEnv\<lparr>RESEND_API_KEY := ''''\<rparr>) Map.empty
        \<lparr>url = ''https://example.com/''\<rparr>)) = 500
   \<and> body (response (handler testPlatform (baseEnv\<lparr>RESEND_API_KEY := ''''\<rparr>) Map.empty
        \<lparr>url = ''https://example.com/''\<rparr>)) = ''Server misconfigured''
   \<and> status (response (handler testPlatform (baseEnv\<lparr>RESEND_API_KEY := ''''\<rparr>) Map.empty
        \<lparr>url = ''https://example.com/''\<rparr>)) \<noteq> 400"
  by (simp add: handler_def stage_defs fixture_defs trim_fixtures)

text \<open>
  C8, amended. For a request whose \<open>token\<close> parameter is absent or blank after trimming
  (that is, made of white space only: \<open>blank_iff_only_whiteSpace\<close>), the provider is never
  called. When, in addition, both credentials are non-blank, the response has status 400
  and body \<open>Token not provided\<close>, nothing is verified and nothing is written to the
  cache. The second part is for a request that misses the cache, as such a request does
  in every cache that only the handler has written.
\<close>

theorem missing_token_is_400:
  assumes no_token: "searchParamsGet p (url request) ''token'' = None
      \<or> (\<exists>t. searchParamsGet p (url request) ''token'' = Some t \<and> trim t = [])"
  shows "fetchCalls (handler p env cache request) = []
    \<and> (trim (RESEND_API_KEY env) \<noteq> [] \<and> trim (RESEND_JWT_SECRET env) \<noteq> []
         \<and> (cache_match cache (createCacheKey request) = None
              \<or> reachable (searchParamsGet p) cache) \<longrightarrow>
       status (response (handler p env cache request)) = 400
       \<and> body (response (handler p env cache request)) = ''Token not provided''
       \<and> cachePut (handler p env cache request) = None
       \<and> verifyCalls (handler p env cache request) = [])"
proof -
  note tok = extractToken_blank [OF no_token]
  have calls: "fetchCalls (handler p env cache request) = []"
  proof (cases "cache_match cache (createCacheKey request)")
    case (Some cached)
    then show ?thesis by (simp add: handler_hit)
  next
    case None
    show ?thesis
    proof (cases "validateEnv env")
      case (HandlerFailure st message)
      with None show ?thesis by (simp add: handler_env_failure)
    next
      case (HandlerSuccess creds)
      from handler_token_failure [OF None this tok] show ?thesis by simp
    qed
  qed
  have "status (response (handler p env cache request)) = 400
       \<and> body (response (handler p env cache request)) = ''Token not provided''
       \<and> cachePut (handler p env cache request) = None
       \<and> verifyCalls (handler p env cache request) = []"
    if key: "trim (RESEND_API_KEY env) \<noteq> []" and secret: "trim (RESEND_JWT_SECRET env) \<noteq> []"
      and cached: "cache_match cache (createCacheKey request) = None
        \<or> reachable (searchParamsGet p) cache"
  proof -
    from cached have miss: "cache_match cache (createCacheKey request) = None"
      using reachable_miss_without_token [OF _ no_token] by blast
    from handler_token_failure [OF miss validateEnv_present [OF key secret] tok]
    show ?thesis by (simp add: createErrorResponse_fields)
  qed
  with calls show ?thesis by blast
qed

theorem missing_token_is_400_witness:
  "fetchCalls (handler testPlatform baseEnv Map.empty \<lparr>url = ''https://example.com/''\<rparr>) = []
   \<and> status (response (handler testPlatform baseEnv Map.empty
        \<lparr>url = ''https://example.com/''\<rparr>)) = 400
   \<and> body (response (handler testPlatform baseEnv Map.empty
        \<lparr>url = ''https://example.com/''\<rparr>)) = ''Token not provided''
   \<and> searchParamsGet testPlatform ''https://example.com/?token=++'' ''token'' = Some ''  ''
   \<and> status (response (handler testPlatform baseEnv
        (afterWrite Map.empty (handler testPlatform baseEnv Map.empty
           \<lparr>url = ''https://example.com/?token=signed-token''\<rparr>))
        \<lparr>url = ''https://example.com/?token=++''\<rparr>)) = 400
   \<and> body (response (handler testPlatform baseEnv
        (afterWrite Map.empty (handler testPlatform baseEnv Map.empty
           \<lparr>url = ''https://example.com/?token=signed-token''\<rparr>))
        \<lparr>url = ''https://example.com/?token=++''\<rparr>)) = ''Token not provided''"
proof -
  let ?cache = "afterWrite Map.empty (handler testPlatform baseEnv Map.empty
      \<lparr>url = ''https://example.com/?token=signed-token''\<rparr>)"
  have absent: "searchParamsGet testPlatform (url \<lparr>url = ''https://example.com/''\<rparr>) ''token'' = None
      \<or> (\<exists>t. searchParamsGet testPlatform (url \<lparr>url = ''https://example.com/''\<rparr>) ''token'' = Some t
            \<and> trim t = [])"
    by (simp add: fixture_defs)
  have spaces: "searchParamsGet testPlatform (url \<lparr>url = ''https://example.com/?token=++''\<rparr>) ''token''
        = None
      \<or> (\<exists>t. searchParamsGet testPlatform (url \<lparr>url = ''https://example.com/?token=++''\<rparr>) ''token''
            = Some t \<and> trim t = [])"
    by (simp add: fixture_defs trim_fixtures)
  have env: "trim (RESEND_API_KEY baseEnv) \<noteq> [] \<and> trim (RESEND_JWT_SECRET baseEnv) \<noteq> []"
    by (simp add: fixture_defs trim_fixtures)
  have miss: "cache_match Map.empty (createCacheKey \<lparr>url = ''https://example.com/''\<rparr>) = None"
    by (simp add: cache_match_def)
  have reach: "reachable (searchParamsGet testPlatform) ?cache"
    by (rule reachable.written [OF reachable.initial reachable.initial refl])
  have param: "searchParamsGet testPlatform ''https://example.com/?token=++'' ''token'' = Some ''  ''"
    by (simp add: fixture_defs)
  from missing_token_is_400 [OF absent, of baseEnv Map.empty]
    missing_token_is_400 [OF spaces, of baseEnv ?cache] env miss reach param
  show ?thesis by blast
qed




text \<open>
  C10, as stated, does not hold: the cache is keyed by the URL as it came, so a URL with
  a padded token and the URL with the same token unpadded are two entries. Once the
  unpadded URL is cached, a request for it is served from the cache without a fetch,
  while the request with the padded token misses the cache and calls the provider.
\<close>

theorem padded_token_counterexample:
  "searchParamsGet testPlatform ''https://example.com/?token=+signed-token+'' ''token''
     = Some '' signed-token ''
   \<and> searchParamsGet testPlatform ''https://example.com/?token=signed-token'' ''token''
     = Some (trim '' signed-token '')
   \<and> fetchCalls (handler testPlatform baseEnv
        (afterWrite Map.empty (handler testPlatform baseEnv Map.empty
           \<lparr>url = ''https://example.com/?token=signed-token''\<rparr>))
        \<lparr>url = ''https://example.com/?token=+signed-token+''\<rparr>) = [(''email-123'', ''test-api-key'')]
   \<and> fetchCalls (handler testPlatform baseEnv
        (afterWrite Map.empty (handler testPlatform baseEnv Map.empty
           \<lparr>url = ''https://example.com/?token=signed-token''\<rparr>))
        \<lparr>url = ''https://example.com/?token=signed-token''\<rparr>) = []"
  by (simp add: handler_def stage_defs fixture_defs trim_fixtures)

text \<open>
  C10, amended. The verifier is only ever called with the trimmed token. So when a
  request whose token is padded with white space and the request with the trimmed token
  both miss the cache, they get the same response, with the same calls to the verifier
  and to the provider, and schedule the same response for the cache. The cache is read
  and written under the URL of each request as it came: a write goes under the URL of
  the request that caused it, a run looks at no other entry than the one of its URL, and
  the two URLs differ when the token is padded, so neither request sees what the other
  has written.
\<close>

theorem padded_token_same_response:
  assumes padded: "searchParamsGet p (url request) ''token'' = Some t"
    and plain: "searchParamsGet p (url request') ''token'' = Some (trim t)"
    and miss: "cache_match cache (createCacheKey request) = None"
    and miss': "cache_match cache' (createCacheKey request') = None"
  shows "response (handler p env cache request) = response (handler p env cache' request')
    \<and> verifyCalls (handler p env cache request) = verifyCalls (handler p env cache' request')
    \<and> fetchCalls (handler p env cache request) = fetchCalls (handler p env cache' request')
    \<and> (\<forall>call. call \<in> set (verifyCalls (handler p env cache request)) \<longrightarrow> fst call = trim t)
    \<and> (\<forall>stored. cachePut (handler p env cache request) = Some (createCacheKey request, stored)
          \<longleftrightarrow> cachePut (handler p env cache' request') = Some (createCacheKey request', stored))
    \<and> (\<forall>cacheKey stored. cachePut (handler p env cache request) = Some (cacheKey, stored)
          \<longrightarrow> url cacheKey = url request)
    \<and> (\<forall>cacheKey stored. cachePut (handler p env cache' request') = Some (cacheKey, stored)
          \<longrightarrow> url cacheKey = url request')
    \<and> (\<forall>other. other (url request) = cache (url request)
          \<longrightarrow> handler p env other request = handler p env cache request)
    \<and> (trim t \<noteq> t \<longrightarrow>
          url request \<noteq> url request'
          \<and> cache_match (afterWrite cache (handler p env cache request)) (createCacheKey request')
              = cache_match cache (createCacheKey request')
          \<and> cache_match (afterWrite cache' (handler p env cache' request'))
                (createCacheKey request)
              = cache_match cache' (createCacheKey request))"
proof -
  let ?out = "handler p env cache request" and ?out' = "handler p env cache' request'"
  have same: "extractTokenFromRequest p request' = extractTokenFromRequest p request"
    using padded plain by (simp add: extractTokenFromRequest_def trim_idem)
  have sent: "token = trim t" if "extractTokenFromRequest p request = HandlerSuccess token" for token
    using that padded
    by (simp add: extractTokenFromRequest_def success_def failure_def Let_def split: if_splits)
  have shape: "\<exists>r stored vc fc.
      ?out = \<lparr>response = r, cachePut = map_option (Pair (createCacheKey request)) stored,
              verifyCalls = vc, fetchCalls = fc\<rparr>
      \<and> ?out' = \<lparr>response = r, cachePut = map_option (Pair (createCacheKey request')) stored,
              verifyCalls = vc, fetchCalls = fc\<rparr>
      \<and> (\<forall>call. call \<in> set vc \<longrightarrow> fst call = trim t)"
  proof (cases "validateEnv env")
    case (HandlerFailure st message)
    from handler_env_failure [OF miss this] handler_env_failure [OF miss' this]
    show ?thesis
      by (intro exI [of _ "createErrorResponse message st"] exI [of _ None] exI [of _ "[]"])
        simp
  next
    case env: (HandlerSuccess creds)
    show ?thesis
    proof (cases "extractTokenFromRequest p request")
      case (HandlerFailure st message)
      from handler_token_failure [OF miss env this]
        handler_token_failure [OF miss' env this [folded same]]
      show ?thesis
        by (intro exI [of _ "createErrorResponse message st"] exI [of _ None] exI [of _ "[]"])
          simp
    next
      case tok: (HandlerSuccess token)
      note tok' = tok [folded same]
      show ?thesis
      proof (cases "resolveEmailId p token (jwtSecret creds)")
        case (HandlerFailure st message)
        from handler_verify_failure [OF miss env tok this]
          handler_verify_failure [OF miss' env tok' this] sent [OF tok]
        show ?thesis
          by (intro exI [of _ "createErrorResponse message st"] exI [of _ None]
              exI [of _ "[(token, jwtSecret creds)]"] exI [of _ "[]"]) simp
      next
        case ver: (HandlerSuccess claims)
        show ?thesis
        proof (cases "fetchEmailHtml p (emailId claims) (apiKey creds)")
          case (HandlerFailure st message)
          from handler_fetch_failure [OF miss env tok ver this]
            handler_fetch_failure [OF miss' env tok' ver this] sent [OF tok]
          show ?thesis
            by (intro exI [of _ "createErrorResponse message st"] exI [of _ None]
                exI [of _ "[(token, jwtSecret creds)]"]
                exI [of _ "[(emailId claims, apiKey creds)]"]) simp
        next
          case fet: (HandlerSuccess html)
          let ?ttl = "expiresAtSeconds claims - dateNow p div 1000"
          from handler_success [OF miss env tok ver fet]
            handler_success [OF miss' env tok' ver fet] sent [OF tok]
          show ?thesis
            by (intro exI [of _ "createSuccessResponse html ?ttl"]
                exI [of _ "if 0 < ?ttl then Some (createSuccessResponse html ?ttl) else None"]
                exI [of _ "[(token, jwtSecret creds)]"]
                exI [of _ "[(emailId claims, apiKey creds)]"]) simp
        qed
      qed
    qed
  qed
  then obtain r stored vc fc where
    out: "?out = \<lparr>response = r, cachePut = map_option (Pair (createCacheKey request)) stored,
              verifyCalls = vc, fetchCalls = fc\<rparr>" and
    out': "?out' = \<lparr>response = r, cachePut = map_option (Pair (createCacheKey request')) stored,
              verifyCalls = vc, fetchCalls = fc\<rparr>" and
    calls: "\<forall>call. call \<in> set vc \<longrightarrow> fst call = trim t"
    by blast
  have apart: "url request \<noteq> url request'" if "trim t \<noteq> t"
  proof
    assume "url request = url request'"
    with padded plain have "t = trim t" by simp
    with that show False by simp
  qed
  have unseen: "cache_match (afterWrite cache ?out) (createCacheKey request')
      = cache_match cache (createCacheKey request')" if "url request \<noteq> url request'"
    using that unfolding out
    by (cases stored) (simp_all add: afterWrite_def cache_put_def cache_match_def createCacheKey_def)
  have unseen': "cache_match (afterWrite cache' ?out') (createCacheKey request)
      = cache_match cache' (createCacheKey request)" if "url request \<noteq> url request'"
    using that unfolding out'
    by (cases stored) (simp_all add: afterWrite_def cache_put_def cache_match_def createCacheKey_def)
  have own: "\<forall>cacheKey kept. cachePut ?out = Some (cacheKey, kept) \<longrightarrow> url cacheKey = url request"
    unfolding out by (cases stored) (simp_all add: createCacheKey_def)
  have own': "\<forall>cacheKey kept. cachePut ?out' = Some (cacheKey, kept) \<longrightarrow> url cacheKey = url request'"
    unfolding out' by (cases stored) (simp_all add: createCacheKey_def)
  have both: "\<forall>kept. cachePut ?out = Some (createCacheKey request, kept)
          \<longleftrightarrow> cachePut ?out' = Some (createCacheKey request', kept)"
    unfolding out out' by (cases stored) simp_all
  have fields: "response ?out = response ?out'" "verifyCalls ?out = verifyCalls ?out'"
    "fetchCalls ?out = fetchCalls ?out'"
    "\<forall>call. call \<in> set (verifyCalls ?out) \<longrightarrow> fst call = trim t"
    unfolding out out' using calls by simp_all
  from fields both own own' apart unseen unseen' handler_reads_own_url [of _ request cache p env]
  show ?thesis by blast
qed

theorem padded_token_same_response_witness:
  "response (handler testPlatform baseEnv Map.empty
      \<lparr>url = ''https://example.com/?token=+signed-token+''\<rparr>)
     = response (handler testPlatform baseEnv Map.empty
      \<lparr>url = ''https://example.com/?token=signed-token''\<rparr>)
   \<and> verifyCalls (handler testPlatform baseEnv Map.empty
      \<lparr>url = ''https://example.com/?token=+signed-token+''\<rparr>) = [(''signed-token'', ''test-secret'')]
   \<and> url (fst (the (cachePut (handler testPlatform baseEnv Map.empty
      \<lparr>url = ''https://example.com/?token=+signed-token+''\<rparr>))))
     = ''https://example.com/?token=+signed-token+''
   \<and> cache_match
        (afterWrite Map.empty (handler testPlatform baseEnv Map.empty
           \<lparr>url = ''https://example.com/?token=+signed-token+''\<rparr>))
        (createCacheKey \<lparr>url = ''https://example.com/?token=signed-token''\<rparr>) = None"
proof -
  let ?padded = "\<lparr>url = ''https://example.com/?token=+signed-token+''\<rparr>"
  let ?plain = "\<lparr>url = ''https://example.com/?token=signed-token''\<rparr>"
  have padded: "searchParamsGet testPlatform (url ?padded) ''token'' = Some '' signed-token ''"
    by (simp add: fixture_defs)
  have plain: "searchParamsGet testPlatform (url ?plain) ''token''
      = Some (trim '' signed-token '')"
    by (simp add: fixture_defs trim_fixtures)
  have miss: "cache_match Map.empty (createCacheKey r) = None" for r
    by (simp add: cache_match_def)
  have differs: "trim '' signed-token '' \<noteq> '' signed-token ''"
    by (simp add: trim_fixtures)
  have put: "cachePut (handler testPlatform baseEnv Map.empty ?padded)
      = Some (?padded, response (handler testPlatform baseEnv Map.empty ?padded))"
    by (simp add: handler_def stage_defs fixture_defs trim_fixtures)
  have calls: "verifyCalls (handler testPlatform baseEnv Map.empty ?padded)
      = [(''signed-token'', ''test-secret'')]"
    by (simp add: handler_def stage_defs fixture_defs trim_fixtures)
  from padded_token_same_response [OF padded plain miss miss, of baseEnv] differs
  have "response (handler testPlatform baseEnv Map.empty ?padded)
      = response (handler testPlatform baseEnv Map.empty ?plain)"
    and "cache_match (afterWrite Map.empty (handler testPlatform baseEnv Map.empty ?padded))
        (createCacheKey ?plain) = cache_match Map.empty (createCacheKey ?plain)"
    by blast+
  with miss calls put show ?thesis by simp
qed

end
